theory Spec2Isabelle
  imports Main
begin

section \<open>Python values, JSON bodies and library calls\<close>

text \<open>
  The three services (A: \<^verbatim>\<open>cognee_app/main.py\<close>, B: \<^verbatim>\<open>graphiti_app/main.py\<close>,
  C: \<^verbatim>\<open>mem0_app/main.py\<close>) are request handlers around a wrapped library. A handler is
  modelled as a function of what \<^verbatim>\<open>get_json()\<close> gave, of the process-wide globals it
  reads, and of what the wrapped library answers when it is called; it returns the HTTP
  response together with the list of library calls it made, in order.

  \<^verbatim>\<open>get_json()\<close> gives \<open>None\<close> (for the body \<^verbatim>\<open>null\<close>, and for a request without
  JSON where the framework does not raise), a boolean, a number, a string, a list or a
  dictionary. A dictionary is a record of the keys the handlers read. A key read by name
  is absent, holds \<^verbatim>\<open>null\<close>, or holds a string, the type the interface of the services
  declares for it. The keys \<open>days\<close> (an integer) and \<open>categories\<close> (a list of strings
  or, for the \<^verbatim>\<open>isinstance\<close> check, a bare string) are read with \<^verbatim>\<open>payload.get\<close> only,
  which gives \<open>None\<close> for an absent key and for \<^verbatim>\<open>null\<close> alike. The handlers are
  taken from the value of \<^verbatim>\<open>get_json()\<close> on: a request for which the call raises (a
  body that does not parse) has none.
\<close>

datatype jv = JNull | JInt int | JStr string | JArr "jv list" | JObj "(string \<times> jv) list"

record response =
  code :: nat
  body :: "(string \<times> jv) list"

definition jsonify :: "(string \<times> jv) list \<Rightarrow> nat \<Rightarrow> response" where
  "jsonify b c = \<lparr>code = c, body = b\<rparr>"

type_synonym exn = string

datatype categories_field = CatsList "string list" | CatsStr string

datatype key_value = KAbsent | KNull | KStr string

record payload =
  data :: key_value
  query :: key_value
  category :: key_value
  user_id :: key_value
  categories :: "categories_field option"
  days :: "int option"

datatype json_body =
  BNull | BBool bool | BNum int | BStr string | BArr "jv list" | BObj payload

text \<open>
  The value of a key is \<open>None\<close> or a string. \<^verbatim>\<open>payload.get(k)\<close> is \<open>None\<close> for an
  absent key and for one that holds \<^verbatim>\<open>null\<close>; \<^verbatim>\<open>payload.get(k, d)\<close> replaces an absent
  key only; \<^verbatim>\<open>payload[k]\<close>, reached for a key that is present, is \<open>payload_get\<close> as
  well. \<^verbatim>\<open>not v\<close> holds of \<open>None\<close> and of the empty string. \<open>get_default\<close> is the
  default of \<^verbatim>\<open>getattr\<close>. An f-string renders \<open>None\<close> as the text \<^verbatim>\<open>None\<close> and a
  string as itself.
\<close>

definition payload_get :: "key_value \<Rightarrow> string option" where
  "payload_get v = (case v of KAbsent \<Rightarrow> None | KNull \<Rightarrow> None | KStr s \<Rightarrow> Some s)"

definition payload_get_or :: "key_value \<Rightarrow> string \<Rightarrow> string option" where
  "payload_get_or v d = (case v of KAbsent \<Rightarrow> Some d | KNull \<Rightarrow> None | KStr s \<Rightarrow> Some s)"

definition falsy :: "string option \<Rightarrow> bool" where
  "falsy v \<longleftrightarrow> v = None \<or> v = Some []"


definition py_format :: "string option \<Rightarrow> string" where
  "py_format v = (case v of None \<Rightarrow> ''None'' | Some s \<Rightarrow> s)"

text \<open>The composite namespace key \<^verbatim>\<open>f"{user_id}_{category}"\<close>.\<close>

definition composite_key :: "string \<Rightarrow> string \<Rightarrow> string" where
  "composite_key uid cat = uid @ ''_'' @ cat"

text \<open>
  The calls into the wrapped libraries, with the arguments the handlers pass:
  \<^verbatim>\<open>cognee.add(text, dataset_name)\<close>, \<^verbatim>\<open>cognee.cognify()\<close>, \<^verbatim>\<open>cognee.search(query, datasets)\<close>,
  \<^verbatim>\<open>graphiti.add_episode(name, episode_body, group_id)\<close>, \<^verbatim>\<open>graphiti.search(query, group_ids)\<close>,
  \<^verbatim>\<open>memory.add(data, user_id, metadata.category)\<close>, \<^verbatim>\<open>memory.search(query, user_id)\<close>,
  \<^verbatim>\<open>memory.get_all(user_id)\<close> and \<^verbatim>\<open>memory.delete(memory_id)\<close>.
\<close>

datatype lib_call =
    CogneeAdd "string option" string
  | CogneeCognify
  | CogneeSearch "string option" "string list"
  | GraphitiAddEpisode string "string option" string
  | GraphitiSearch "string option" "string list"
  | Mem0Add "string option" "string option" "string option"
  | Mem0Search "string option" "string option"
  | Mem0GetAll "string option"
  | Mem0Delete string

subsection \<open>A body that is no dictionary\<close>

text \<open>
  \<^verbatim>\<open>payload.get\<close> exists on a dictionary only: on any other value the attribute access
  raises \<^verbatim>\<open>AttributeError\<close>. An exception that no \<^verbatim>\<open>try\<close> of the handler covers is
  answered by the framework (Quart and Flask alike) with status 500; what it sends is
  no JSON document, and the body is left empty here.
\<close>

definition py_type :: "json_body \<Rightarrow> string" where
  "py_type b =
    (case b of
       BNull \<Rightarrow> ''NoneType'' | BBool _ \<Rightarrow> ''bool'' | BNum _ \<Rightarrow> ''int'' | BStr _ \<Rightarrow> ''str''
     | BArr _ \<Rightarrow> ''list'' | BObj _ \<Rightarrow> ''dict'')"

definition as_dict :: "json_body \<Rightarrow> exn + payload" where
  "as_dict b =
    (case b of
       BObj p \<Rightarrow> Inr p
     | _ \<Rightarrow> Inl ([CHR 0x27] @ py_type b @ [CHR 0x27] @ '' object has no attribute 'get'' @
                 [CHR 0x27]))"

definition is_dict :: "json_body \<Rightarrow> bool" where
  "is_dict b = (case b of BObj _ \<Rightarrow> True | _ \<Rightarrow> False)"

definition unhandled :: response where
  "unhandled = jsonify [] 500"

subsection \<open>Decimal numerals\<close>

text \<open>\<^verbatim>\<open>str(n)\<close> of a Python integer, as the f-strings render it.\<close>

definition digit_char :: "nat \<Rightarrow> char" where
  "digit_char d = ''0123456789'' ! d"

fun str_nat :: "nat \<Rightarrow> string" where
  "str_nat n = (if n < 10 then [digit_char n] else str_nat (n div 10) @ [digit_char (n mod 10)])"

declare str_nat.simps [simp del]

definition py_str_int :: "int \<Rightarrow> string" where
  "py_str_int i = (if i < 0 then CHR ''-'' # str_nat (nat (- i)) else str_nat (nat i))"

section \<open>Service A: add\<close>

text \<open>
  \<open>add_raises\<close> and \<open>cognify_raises\<close> say whether \<^verbatim>\<open>cognee.add\<close> and
  \<^verbatim>\<open>cognee.cognify\<close> raise (with the exception's message) when they are called. The
  handler reads the body inside its \<^verbatim>\<open>try\<close>.
\<close>

definition cognee_add_memory ::
  "json_body \<Rightarrow> exn option \<Rightarrow> exn option \<Rightarrow> response \<times> lib_call list" where
  "cognee_add_memory b add_raises cognify_raises =
    (case as_dict b of
       Inl e \<Rightarrow> (jsonify [(''error'', JStr e)] 500, [])
     | Inr p \<Rightarrow>
         let text_data = payload_get (data p);
             cat = payload_get_or (category p) ''general'';
             uid = payload_get (user_id p)
         in if falsy text_data \<or> falsy uid
            then (jsonify [(''error'', JStr ''Both 'data' and 'user_id' are required'')] 400, [])
            else
              let composite_dataset_name = composite_key (py_format uid) (py_format cat) in
              (case add_raises of
                 Some e \<Rightarrow>
                   (jsonify [(''error'', JStr e)] 500,
                    [CogneeAdd text_data composite_dataset_name])
               | None \<Rightarrow>
                  (case cognify_raises of
                     Some e \<Rightarrow>
                       (jsonify [(''error'', JStr e)] 500,
                        [CogneeAdd text_data composite_dataset_name, CogneeCognify])
                   | None \<Rightarrow>
                       (jsonify [(''status'', JStr ''success'')] 200,
                        [CogneeAdd text_data composite_dataset_name, CogneeCognify]))))"

section \<open>Service B: globals and ingest\<close>

text \<open>
  The globals \<^verbatim>\<open>graphiti\<close> and \<^verbatim>\<open>async_driver\<close> are \<open>None\<close> until \<^verbatim>\<open>startup\<close> has
  set them; the handlers only test them, so each is a flag.
\<close>

record gstate =
  graphiti :: bool
  async_driver :: bool

definition episode_name :: "string option \<Rightarrow> int \<Rightarrow> string" where
  "episode_name uid now = ''User_'' @ py_format uid @ ''_Ingest_'' @ py_str_int now"

text \<open>
  \<open>now\<close> is \<^verbatim>\<open>int(time.time())\<close>. The handlers of service B read the body before
  their \<^verbatim>\<open>try\<close>.
\<close>

definition graphiti_add_data ::
  "gstate \<Rightarrow> json_body \<Rightarrow> int \<Rightarrow> exn option \<Rightarrow> response \<times> lib_call list" where
  "graphiti_add_data st b now add_episode_raises =
    (if \<not> graphiti st
     then (jsonify [(''status'', JStr ''error''),
                    (''message'', JStr ''Graphiti not initialized'')] 500, [])
     else
       (case as_dict b of
          Inl e \<Rightarrow> (unhandled, [])
        | Inr p \<Rightarrow>
            let text_data = payload_get (data p);
                cat = payload_get_or (category p) ''general'';
                uid = payload_get (user_id p)
            in if falsy text_data \<or> falsy uid
               then (jsonify [(''status'', JStr ''error''),
                              (''message'', JStr (''Missing 'data' or 'user_id'' @ [CHR 0x27]))]
                       400, [])
               else
                 let name = episode_name uid now;
                     composite_group_id = composite_key (py_format uid) (py_format cat);
                     call = GraphitiAddEpisode name text_data composite_group_id
                 in (case add_episode_raises of
                       Some e \<Rightarrow>
                         (jsonify [(''status'', JStr ''error''), (''message'', JStr e)] 500,
                          [call])
                     | None \<Rightarrow>
                         (jsonify [(''status'', JStr ''success''),
                                   (''message'', JStr (''Ingested for user '' @ py_format uid @
                                                       '', category '' @ py_format cat)),
                                   (''episode_name'', JStr name),
                                   (''group_id'', JStr composite_group_id)] 201, [call]))))"

section \<open>Service C: globals and add\<close>

text \<open>
  The global \<^verbatim>\<open>memory\<close> stays \<open>None\<close> when the initialisation at import time fails;
  the application then still serves requests.
\<close>

record mstate =
  memory :: bool

text \<open>
  The validation of service C: \<^verbatim>\<open>not payload or 'data' not in payload or ...\<close>, from left
  to right. \<^verbatim>\<open>not payload\<close> holds of \<open>None\<close>, \<open>False\<close>, zero, the empty string, the
  empty list and the dictionary without keys. \<^verbatim>\<open>k in payload\<close> looks for the key in a
  dictionary (whatever it holds), for the substring in a string and for the element in
  a list; on a number or a boolean it raises \<^verbatim>\<open>TypeError\<close>, outside any \<^verbatim>\<open>try\<close>. A
  string or a list that passes is then subscripted with a string, which raises
  \<^verbatim>\<open>TypeError\<close> as well.
\<close>

definition empty_body :: "payload \<Rightarrow> bool" where
  "empty_body p \<longleftrightarrow>
     data p = KAbsent \<and> query p = KAbsent \<and> category p = KAbsent \<and> user_id p = KAbsent \<and>
     categories p = None \<and> days p = None"

definition not_body :: "json_body \<Rightarrow> bool" where
  "not_body b =
    (case b of
       BNull \<Rightarrow> True | BBool t \<Rightarrow> \<not> t | BNum n \<Rightarrow> n = 0 | BStr s \<Rightarrow> s = []
     | BArr xs \<Rightarrow> xs = [] | BObj p \<Rightarrow> empty_body p)"

fun starts_with :: "string \<Rightarrow> string \<Rightarrow> bool" where
  "starts_with [] s = True"
| "starts_with (p # ps) [] = False"
| "starts_with (p # ps) (x # xs) = (p = x \<and> starts_with ps xs)"

fun substring :: "string \<Rightarrow> string \<Rightarrow> bool" where
  "substring k [] = (k = [])"
| "substring k (x # xs) = (starts_with k (x # xs) \<or> substring k xs)"

definition key_in :: "string \<Rightarrow> (payload \<Rightarrow> key_value) \<Rightarrow> json_body \<Rightarrow> exn + bool" where
  "key_in k sel b =
    (case b of
       BObj p \<Rightarrow> Inr (sel p \<noteq> KAbsent)
     | BStr s \<Rightarrow> Inr (substring k s)
     | BArr xs \<Rightarrow> Inr (JStr k \<in> set xs)
     | _ \<Rightarrow> Inl (''argument of type '' @ [CHR 0x27] @ py_type b @ [CHR 0x27] @
                 '' is not iterable''))"

fun key_missing :: "json_body \<Rightarrow> (string \<times> (payload \<Rightarrow> key_value)) list \<Rightarrow> exn + bool" where
  "key_missing b [] = Inr False"
| "key_missing b ((k, sel) # ks) =
     (case key_in k sel b of
        Inl e \<Rightarrow> Inl e
      | Inr present \<Rightarrow> if present then key_missing b ks else Inr True)"

definition invalid :: "json_body \<Rightarrow> (string \<times> (payload \<Rightarrow> key_value)) list \<Rightarrow> exn + bool" where
  "invalid b ks = (if not_body b then Inr True else key_missing b ks)"

definition subscript_error :: "json_body \<Rightarrow> exn" where
  "subscript_error b =
    (case b of
       BStr _ \<Rightarrow> ''string indices must be integers, not 'str'' @ [CHR 0x27]
     | BArr _ \<Rightarrow> ''list indices must be integers or slices, not str''
     | _ \<Rightarrow> [CHR 0x27] @ py_type b @ [CHR 0x27] @ '' object is not subscriptable'')"

text \<open>The add handler subscripts the body inside its \<^verbatim>\<open>try\<close>.\<close>

definition mem0_add_memory ::
  "mstate \<Rightarrow> json_body \<Rightarrow> exn option \<Rightarrow> response \<times> lib_call list" where
  "mem0_add_memory st b add_raises =
    (if \<not> memory st
     then (jsonify [(''status'', JStr ''error''),
                    (''message'', JStr ''Memory not initialized'')] 500, [])
     else
       (case invalid b [(''data'', data), (''user_id'', user_id)] of
          Inl e \<Rightarrow> (unhandled, [])
        | Inr missing \<Rightarrow>
            if missing
            then (jsonify [(''status'', JStr ''error''),
                           (''message'', JStr ''Missing 'data' or 'user_id' in request'')] 400, [])
            else
              (case b of
                 BObj p \<Rightarrow>
                   let call = Mem0Add (payload_get (data p)) (payload_get (user_id p))
                                (payload_get_or (category p) ''general'')
                   in (case add_raises of
                         Some e \<Rightarrow>
                           (jsonify [(''status'', JStr ''error''), (''message'', JStr e)] 500,
                            [call])
                       | None \<Rightarrow>
                           (jsonify [(''status'', JStr ''success''),
                                     (''message'', JStr ''Memory added'')] 201, [call]))
               | _ \<Rightarrow>
                   (jsonify [(''status'', JStr ''error''),
                             (''message'', JStr (subscript_error b))] 500, []))))"

section \<open>Services A and B: search\<close>






section \<open>Services A and B: health\<close>

text \<open>
  Service A's module binds the name \<^verbatim>\<open>datetime\<close> twice at top level: line 3 imports the
  module, line 7 (\<^verbatim>\<open>from datetime import datetime, timedelta, timezone\<close>) rebinds the name
  to the class. The later binding is the one the handlers see. \<open>getattr\<close> gives the
  attributes the handlers reach; any other attribute access raises \<^verbatim>\<open>AttributeError\<close>.
\<close>

datatype pyobj = DatetimeModule | DatetimeClass | NowMethod

definition cognee_globals :: "(string \<times> pyobj) list" where
  "cognee_globals = [(''datetime'', DatetimeModule), (''datetime'', DatetimeClass)]"

definition lookup_global :: "(string \<times> pyobj) list \<Rightarrow> string \<Rightarrow> pyobj option" where
  "lookup_global bindings n = map_of (rev bindings) n"

fun getattr :: "pyobj \<Rightarrow> string \<Rightarrow> pyobj option" where
  "getattr DatetimeModule a = (if a = ''datetime'' then Some DatetimeClass else None)"
| "getattr DatetimeClass a = (if a = ''now'' then Some NowMethod else None)"
| "getattr NowMethod a = None"

text \<open>
  \<^verbatim>\<open>health_check\<close> of service A evaluates \<^verbatim>\<open>datetime.datetime.now().isoformat()\<close> inside
  its \<^verbatim>\<open>try\<close>; \<open>now_iso\<close> is the text that call would give.
\<close>

definition cognee_health_check :: "string \<Rightarrow> response \<times> lib_call list" where
  "cognee_health_check now_iso =
    (case Option.bind (Option.bind (lookup_global cognee_globals ''datetime'')
                         (\<lambda>d. getattr d ''datetime''))
            (\<lambda>c. getattr c ''now'') of
       Some _ \<Rightarrow>
         (jsonify [(''status'', JStr ''healthy''),
                   (''timestamp'', JStr now_iso),
                   (''services'', JObj [(''postgres'', JStr ''connected''),
                                        (''cognee'', JStr ''initialized'')])] 200, [])
     | None \<Rightarrow>
         (jsonify [(''status'', JStr ''unhealthy''),
                   (''error'', JStr (''type object 'datetime.datetime' has no attribute 'datetime'' @
                                     [CHR 0x27]))] 500, []))"

definition graphiti_health_check :: "gstate \<Rightarrow> response \<times> lib_call list" where
  "graphiti_health_check st =
    (if graphiti st \<and> async_driver st
     then (jsonify [(''status'', JStr ''healthy''), (''message'', JStr ''System ready'')] 200, [])
     else (jsonify [(''status'', JStr ''unhealthy''),
                    (''message'', JStr ''Initializing...'')] 503, []))"

section \<open>Service A: delete\<close>

text \<open>
  An instant is a number of microseconds since 0001-01-01T00:00 UTC, the least value of
  Python's \<^verbatim>\<open>datetime\<close>; the greatest is the last microsecond of day 3652059
  (9999-12-31). \<^verbatim>\<open>timedelta(days=d)\<close> raises \<^verbatim>\<open>OverflowError\<close> beyond 999999999 days, and
  so does a subtraction whose result leaves the range of \<^verbatim>\<open>datetime\<close>.
\<close>

definition us_per_day :: int where
  "us_per_day = 86400000000"

definition cutoff_before :: "int \<Rightarrow> int \<Rightarrow> exn + int" where
  "cutoff_before now d =
    (if \<bar>d\<bar> > 999999999 then Inl ''days out of range; must have magnitude <= 999999999''
     else
       let r = now - d * us_per_day
       in if r < 0 \<or> 3652059 * us_per_day \<le> r then Inl ''date value out of range'' else Inr r)"

text \<open>
  The tables the handler reads and writes. A junction row of \<open>dataset_data\<close> is
  (dataset id, data id); a row of \<open>acls\<close>, \<open>dataset_database\<close> and \<open>pipeline_runs\<close> is
  (row id, dataset id). \<open>updated_at\<close> may be NULL.
\<close>

record dataset_row =
  ds_id :: nat
  ds_name :: string

record data_row =
  d_id :: nat
  updated_at :: "int option"

record db =
  datasets :: "dataset_row list"
  data_rows :: "data_row list"
  dataset_data :: "(nat \<times> nat) list"
  acls :: "(nat \<times> nat) list"
  dataset_database :: "(nat \<times> nat) list"
  pipeline_runs :: "(nat \<times> nat) list"

text \<open>\<^verbatim>\<open>d.updated_at < $2\<close>: a comparison with NULL selects nothing.\<close>

definition older :: "int option \<Rightarrow> int \<Rightarrow> bool" where
  "older t cutoff = (case t of None \<Rightarrow> False | Some u \<Rightarrow> u < cutoff)"

text \<open>Step 1: \<^verbatim>\<open>SELECT id, name FROM datasets WHERE name = ANY($1)\<close>.\<close>

definition select_datasets :: "db \<Rightarrow> string list \<Rightarrow> dataset_row list" where
  "select_datasets d names = [r \<leftarrow> datasets d. ds_name r \<in> set names]"

text \<open>
  Step 2: \<^verbatim>\<open>SELECT d.id FROM data d JOIN dataset_data dd ON d.id = dd.data_id
  WHERE dd.dataset_id = ANY($1) AND d.updated_at < $2\<close>: one result row for every pair of
  a data row and a junction row that satisfies the conditions.
\<close>

definition select_old_data :: "db \<Rightarrow> nat list \<Rightarrow> int \<Rightarrow> nat list" where
  "select_old_data d dataset_ids cutoff =
    [d_id r. r \<leftarrow> data_rows d, dd \<leftarrow> dataset_data d,
       d_id r = snd dd \<and> fst dd \<in> set dataset_ids \<and> older (updated_at r) cutoff]"

text \<open>Steps 3 and 4: the two \<^verbatim>\<open>DELETE\<close> statements.\<close>

definition delete_links :: "db \<Rightarrow> nat list \<Rightarrow> nat list \<Rightarrow> db" where
  "delete_links d old_data_ids dataset_ids =
    d\<lparr>dataset_data :=
        [dd \<leftarrow> dataset_data d. \<not> (snd dd \<in> set old_data_ids \<and> fst dd \<in> set dataset_ids)]\<rparr>"

definition delete_data :: "db \<Rightarrow> nat list \<Rightarrow> db" where
  "delete_data d old_data_ids = d\<lparr>data_rows := [r \<leftarrow> data_rows d. d_id r \<notin> set old_data_ids]\<rparr>"

text \<open>
  Step 5: \<^verbatim>\<open>SELECT d.id FROM datasets d LEFT JOIN dataset_data dd ON d.id = dd.dataset_id
  WHERE d.id = ANY($1) GROUP BY d.id HAVING COUNT(dd.data_id) = 0\<close>: one row for each
  targeted dataset id that no junction row names.
\<close>

definition select_empty_datasets :: "db \<Rightarrow> nat list \<Rightarrow> nat list" where
  "select_empty_datasets d dataset_ids =
    remdups [ds_id r. r \<leftarrow> datasets d,
               ds_id r \<in> set dataset_ids \<and> \<not> (\<exists>dd \<in> set (dataset_data d). fst dd = ds_id r)]"

definition delete_datasets :: "db \<Rightarrow> nat list \<Rightarrow> db" where
  "delete_datasets d empty_dataset_ids =
    d\<lparr>acls := [a \<leftarrow> acls d. snd a \<notin> set empty_dataset_ids],
      dataset_database := [a \<leftarrow> dataset_database d. snd a \<notin> set empty_dataset_ids],
      pipeline_runs := [a \<leftarrow> pipeline_runs d. snd a \<notin> set empty_dataset_ids],
      datasets := [r \<leftarrow> datasets d. ds_id r \<notin> set empty_dataset_ids]\<rparr>"

text \<open>\<^verbatim>\<open>not categories\<close>: the key is absent, or holds an empty list or an empty string.\<close>

definition no_categories :: "categories_field option \<Rightarrow> bool" where
  "no_categories c \<longleftrightarrow> c = None \<or> c = Some (CatsList []) \<or> c = Some (CatsStr [])"

text \<open>
  The steps after validation, on the database: the composite names, the cutoff and the
  five steps of the transaction. The connection is taken to open and every statement to
  run: the tables are the only state. \<open>now\<close> is \<^verbatim>\<open>datetime.now(timezone.utc)\<close>. The cutoff is
  computed before the connection is opened, so an \<^verbatim>\<open>OverflowError\<close> there is answered
  with 500 whatever the tables hold. The response carries the cutoff as the instant
  (the source renders it with \<^verbatim>\<open>isoformat()\<close>).
\<close>

definition cleanup :: "string option \<Rightarrow> string list \<Rightarrow> int \<Rightarrow> int \<Rightarrow> db \<Rightarrow> response \<times> db" where
  "cleanup uid cats dys now d =
    (case cutoff_before now dys of
       Inl e \<Rightarrow> (jsonify [(''error'', JStr e)] 500, d)
     | Inr cutoff_date \<Rightarrow>
         let composite_names = map (\<lambda>cat. composite_key (py_format uid) cat) cats;
             dataset_rows = select_datasets d composite_names
         in if dataset_rows = []
            then (jsonify [(''status'', JStr ''not_found''),
                           (''message'', JStr ''No matching datasets found.'')] 404, d)
            else
              let dataset_ids = map ds_id dataset_rows;
                  old_data_ids = select_old_data d dataset_ids cutoff_date;
                  deleted_count = length old_data_ids;
                  d1 = (if deleted_count > 0
                        then delete_data (delete_links d old_data_ids dataset_ids) old_data_ids
                        else d);
                  empty_dataset_ids = select_empty_datasets d1 dataset_ids;
                  datasets_removed_count = length empty_dataset_ids;
                  d2 = (if empty_dataset_ids \<noteq> [] then delete_datasets d1 empty_dataset_ids
                        else d1)
              in (jsonify [(''status'', JStr ''success''),
                           (''message'', JStr ''Processed cleanup.''),
                           (''details'', JObj
                              [(''data_entries_deleted'', JInt (int deleted_count)),
                               (''empty_datasets_removed'', JInt (int datasets_removed_count)),
                               (''cutoff_date'', JInt cutoff_date)])] 200, d2))"

text \<open>The handler; it reads the body inside its \<^verbatim>\<open>try\<close>.\<close>

definition cognee_delete_old_data :: "json_body \<Rightarrow> int \<Rightarrow> db \<Rightarrow> response \<times> db" where
  "cognee_delete_old_data b now d =
    (case as_dict b of
       Inl e \<Rightarrow> (jsonify [(''error'', JStr e)] 500, d)
     | Inr p \<Rightarrow>
         let uid = payload_get (user_id p) in
         if falsy uid \<or> no_categories (categories p) \<or> days p = None
         then (jsonify [(''error'',
                 JStr ''user_id, categories (list), and days (int) are required'')] 400, d)
         else
           (case (categories p, days p) of
              (Some (CatsList cats), Some dys) \<Rightarrow> cleanup uid cats dys now d
            | _ \<Rightarrow> (jsonify [(''error'', JStr ''categories must be a list'')] 400, d)))"

text \<open>
  What the claims about the handler speak of. \<open>detail\<close> reads a field of the
  \<open>details\<close> object of a response. \<open>schema_ok\<close> holds the constraints of the schema:
  the primary key of \<open>data\<close> and the foreign key from \<open>dataset_data\<close> to \<open>data\<close>.
  \<open>owned_once\<close> is the ownership the comment at step 4 assumes: a data row is linked to
  one dataset, once. \<open>targets\<close> are the ids of the datasets the composite names select,
  \<open>linked d T r\<close> says that the data row \<open>r\<close> is in a dataset of \<open>T\<close>, \<open>rows_in d t\<close>
  are the data rows of dataset \<open>t\<close>, and a dataset of \<open>T\<close> is \<open>emptied\<close> when as many of
  its rows are older than the cutoff as it has rows.
\<close>

definition detail :: "response \<Rightarrow> string \<Rightarrow> jv option" where
  "detail r k = (case map_of (body r) ''details'' of Some (JObj kv) \<Rightarrow> map_of kv k | _ \<Rightarrow> None)"

definition schema_ok :: "db \<Rightarrow> bool" where
  "schema_ok d \<longleftrightarrow>
     distinct (map d_id (data_rows d)) \<and>
     (\<forall>dd \<in> set (dataset_data d). \<exists>r \<in> set (data_rows d). d_id r = snd dd)"

definition owned_once :: "db \<Rightarrow> bool" where
  "owned_once d \<longleftrightarrow> distinct (map snd (dataset_data d))"

definition linked :: "db \<Rightarrow> nat set \<Rightarrow> data_row \<Rightarrow> bool" where
  "linked d T r \<longleftrightarrow> (\<exists>dd \<in> set (dataset_data d). snd dd = d_id r \<and> fst dd \<in> T)"

definition rows_in :: "db \<Rightarrow> nat \<Rightarrow> data_row list" where
  "rows_in d t = [r \<leftarrow> data_rows d. linked d {t} r]"

definition targets :: "db \<Rightarrow> string option \<Rightarrow> string list \<Rightarrow> nat set" where
  "targets d uid cats =
     ds_id ` set (select_datasets d (map (composite_key (py_format uid)) cats))"

definition emptied :: "db \<Rightarrow> int \<Rightarrow> nat set \<Rightarrow> nat \<Rightarrow> bool" where
  "emptied d c T t \<longleftrightarrow>
     t \<in> T \<and> length [x \<leftarrow> rows_in d t. older (updated_at x) c] = length (rows_in d t)"

section \<open>Service B: delete_old\<close>

text \<open>
  The graph: nodes with an identity, the label \<^verbatim>\<open>Episodic\<close> or another one, and the
  property \<open>name\<close>; relationships as pairs of node identities.
\<close>

record gnode =
  node_id :: nat
  episodic :: bool
  name :: string

record graph =
  nodes :: "gnode list"
  rels :: "(nat \<times> nat) list"

text \<open>
  The Cypher functions of the deletion query. \<^verbatim>\<open>split(s, '_')\<close> cuts at every separator;
  indexing a list out of range gives null; \<^verbatim>\<open>toInteger\<close> of null, and of a string that is
  no number, is null; a comparison with null does not hold. \<open>toInteger\<close> is modelled on
  decimal numerals with an optional minus sign, which is what the ingest handler writes
  into a name. \<^verbatim>\<open>STARTS WITH\<close> is \<open>starts_with\<close>.
\<close>

fun split_on :: "char \<Rightarrow> string \<Rightarrow> string list" where
  "split_on c [] = [[]]"
| "split_on c (x # xs) =
     (if x = c then [] # split_on c xs
      else (case split_on c xs of [] \<Rightarrow> [[x]] | w # ws \<Rightarrow> (x # w) # ws))"

definition nth_opt :: "'a list \<Rightarrow> nat \<Rightarrow> 'a option" where
  "nth_opt xs i = (if i < length xs then Some (xs ! i) else None)"

definition digit_of :: "char \<Rightarrow> nat option" where
  "digit_of c = map_of (zip ''0123456789'' [0, 1, 2, 3, 4, 5, 6, 7, 8, 9]) c"

fun digits_val :: "string \<Rightarrow> nat \<Rightarrow> nat option" where
  "digits_val [] acc = Some acc"
| "digits_val (c # cs) acc =
     (case digit_of c of None \<Rightarrow> None | Some v \<Rightarrow> digits_val cs (10 * acc + v))"

definition toInteger :: "string \<Rightarrow> int option" where
  "toInteger s =
    (case s of
       [] \<Rightarrow> None
     | c # cs \<Rightarrow>
         if c = CHR ''-''
         then (if cs = [] then None else map_option (\<lambda>n. - int n) (digits_val cs 0))
         else map_option int (digits_val s 0))"

text \<open>
  \<^verbatim>\<open>MATCH (e:Episodic) WHERE e.name STARTS WITH $user_prefix AND
  toInteger(split(e.name, '_')[3]) < $cutoff DETACH DELETE e RETURN count(e)\<close>.
\<close>

definition del_match :: "string \<Rightarrow> int \<Rightarrow> gnode \<Rightarrow> bool" where
  "del_match user_prefix cutoff e \<longleftrightarrow>
     episodic e \<and> starts_with user_prefix (name e) \<and>
     (case Option.bind (nth_opt (split_on CHR ''_'' (name e)) 3) toInteger of
        None \<Rightarrow> False
      | Some t \<Rightarrow> t < cutoff)"

definition delete_old_episodes :: "string \<Rightarrow> int \<Rightarrow> graph \<Rightarrow> nat \<times> graph" where
  "delete_old_episodes user_prefix cutoff g =
    (let gone = [e \<leftarrow> nodes g. del_match user_prefix cutoff e];
         ids = map node_id gone
     in (length gone,
         \<lparr>nodes = [e \<leftarrow> nodes g. \<not> del_match user_prefix cutoff e],
          rels = [r \<leftarrow> rels g. fst r \<notin> set ids \<and> snd r \<notin> set ids]\<rparr>))"

text \<open>\<^verbatim>\<open>MATCH (n) WHERE NOT (n)--() DELETE n RETURN count(n)\<close>, over the whole graph.\<close>

definition connected :: "graph \<Rightarrow> gnode \<Rightarrow> bool" where
  "connected g n \<longleftrightarrow> (\<exists>r \<in> set (rels g). fst r = node_id n \<or> snd r = node_id n)"

definition delete_orphans :: "graph \<Rightarrow> nat \<times> graph" where
  "delete_orphans g =
    (length [n \<leftarrow> nodes g. \<not> connected g n], g\<lparr>nodes := [n \<leftarrow> nodes g. connected g n]\<rparr>)"

definition user_prefix_of :: "string option \<Rightarrow> string" where
  "user_prefix_of uid = ''User_'' @ py_format uid @ ''_Ingest_''"

definition cutoff_time :: "int \<Rightarrow> int" where
  "cutoff_time now = now - 90 * 24 * 60 * 60"

text \<open>
  The handler; \<open>now\<close> is \<^verbatim>\<open>int(time.time())\<close>. It opens the session on the global
  \<^verbatim>\<open>async_driver\<close> inside its \<^verbatim>\<open>try\<close>, so a driver that is still \<open>None\<close> gives 500.
\<close>

definition graphiti_delete_old_data ::
  "gstate \<Rightarrow> json_body \<Rightarrow> int \<Rightarrow> graph \<Rightarrow> response \<times> graph" where
  "graphiti_delete_old_data st b now g =
    (case as_dict b of
       Inl e \<Rightarrow> (unhandled, g)
     | Inr p \<Rightarrow>
         let uid = payload_get (user_id p) in
         if falsy uid
         then (jsonify [(''status'', JStr ''error''),
                        (''message'', JStr (''Missing 'user_id'' @ [CHR 0x27]))] 400, g)
         else if \<not> async_driver st
         then (jsonify [(''status'', JStr ''error''),
                        (''message'', JStr (CHR 0x27 #
                           ''NoneType' object has no attribute 'session'' @ [CHR 0x27]))] 500, g)
         else
           let (deleted_episodes, g1) =
                 delete_old_episodes (user_prefix_of uid) (cutoff_time now) g;
               (deleted_nodes, g2) = delete_orphans g1
           in (jsonify [(''status'', JStr ''success''),
                        (''message'', JStr (''Removed '' @ str_nat deleted_episodes @
                           '' episodes and '' @ str_nat deleted_nodes @ '' orphaned nodes.''))]
                 200, g2))"

section \<open>Service C: search\<close>

text \<open>
  A memory record as \<^verbatim>\<open>memory.search\<close> and \<^verbatim>\<open>memory.get_all\<close> return it: a dictionary
  with an \<open>id\<close>, the text, possibly \<open>created_at\<close>, and \<open>metadata\<close>, which is missing,
  \<open>None\<close> or a dictionary.
\<close>

datatype meta_field = MetaAbsent | MetaNull | MetaDict "(string \<times> string) list"

record mem =
  mem_id :: string
  mem_text :: string
  created_at :: "string option"
  metadata :: meta_field

definition mem_json :: "mem \<Rightarrow> jv" where
  "mem_json m =
    JObj ([(''id'', JStr (mem_id m)), (''memory'', JStr (mem_text m))] @
          (case created_at m of None \<Rightarrow> [] | Some t \<Rightarrow> [(''created_at'', JStr t)]) @
          (case metadata m of
             MetaAbsent \<Rightarrow> []
           | MetaNull \<Rightarrow> [(''metadata'', JNull)]
           | MetaDict kv \<Rightarrow> [(''metadata'', JObj (map (\<lambda>(k, v). (k, JStr v)) kv))]))"

text \<open>
  \<^verbatim>\<open>m.get("metadata", {}).get("category") == category\<close>: the default stands in for a
  missing key only, so a \<open>metadata\<close> that is \<open>None\<close> raises \<^verbatim>\<open>AttributeError\<close>.
\<close>

definition category_is :: "string \<Rightarrow> mem \<Rightarrow> exn + bool" where
  "category_is cat m =
    (case metadata m of
       MetaAbsent \<Rightarrow> Inr False
     | MetaNull \<Rightarrow> Inl (CHR 0x27 # ''NoneType' object has no attribute 'get'' @ [CHR 0x27])
     | MetaDict kv \<Rightarrow> Inr (map_of kv ''category'' = Some cat))"

text \<open>The list comprehension: the first exception ends it.\<close>

fun preferred_of :: "string \<Rightarrow> mem list \<Rightarrow> exn + mem list" where
  "preferred_of cat [] = Inr []"
| "preferred_of cat (m # ms) =
     (case category_is cat m of
        Inl e \<Rightarrow> Inl e
      | Inr b \<Rightarrow>
          (case preferred_of cat ms of
             Inl e \<Rightarrow> Inl e
           | Inr r \<Rightarrow> Inr (if b then m # r else r)))"

text \<open>What \<^verbatim>\<open>memory.search\<close> returns: a dictionary (with or without \<open>results\<close>), a list,
  or something else.\<close>

datatype raw_response = RawDict "mem list option" | RawList "mem list" | RawOther

definition normalize :: "raw_response \<Rightarrow> mem list" where
  "normalize raw =
    (case raw of
       RawDict r \<Rightarrow> (case r of None \<Rightarrow> [] | Some xs \<Rightarrow> xs)
     | RawList xs \<Rightarrow> xs
     | RawOther \<Rightarrow> [])"

text \<open>Steps 3 and 4 of the handler: the soft category preference and the final trim.\<close>

definition prefer_and_trim :: "string option \<Rightarrow> mem list \<Rightarrow> exn + mem list" where
  "prefer_and_trim cat candidates =
    (if \<not> falsy cat \<and> candidates \<noteq> []
     then (case preferred_of (py_format cat) candidates of
             Inl e \<Rightarrow> Inl e
           | Inr preferred \<Rightarrow> Inr (take 5 (if preferred \<noteq> [] then preferred else candidates)))
     else Inr (take 5 candidates))"

text \<open>The search handler subscripts the body before its \<^verbatim>\<open>try\<close>.\<close>

definition mem0_search_memories ::
  "mstate \<Rightarrow> json_body \<Rightarrow> exn + raw_response \<Rightarrow> response \<times> lib_call list" where
  "mem0_search_memories st b search_result =
    (if \<not> memory st
     then (jsonify [(''status'', JStr ''error''),
                    (''message'', JStr ''Memory not initialized'')] 500, [])
     else
       (case invalid b [(''query'', query), (''user_id'', user_id)] of
          Inl e \<Rightarrow> (unhandled, [])
        | Inr missing \<Rightarrow>
            if missing
            then (jsonify [(''status'', JStr ''error''),
                           (''message'', JStr ''Missing 'query' or 'user_id' in request'')] 400,
                  [])
            else
              (case b of
                 BObj p \<Rightarrow>
                   let call = Mem0Search (payload_get (query p)) (payload_get (user_id p)) in
                   (case search_result of
                      Inl e \<Rightarrow>
                        (jsonify [(''status'', JStr ''error''), (''message'', JStr e)] 500,
                         [call])
                    | Inr raw \<Rightarrow>
                        (case prefer_and_trim (payload_get (category p)) (normalize raw) of
                           Inl e \<Rightarrow>
                             (jsonify [(''status'', JStr ''error''), (''message'', JStr e)] 500,
                              [call])
                         | Inr results \<Rightarrow>
                             (jsonify [(''status'', JStr ''success''),
                                       (''results'', JArr (map mem_json results))] 200,
                              [call])))
               | _ \<Rightarrow> (unhandled, []))))"


section \<open>Service C: delete_old\<close>

text \<open>
  \<^verbatim>\<open>datetime.fromisoformat\<close> is a parameter of the model: it gives an aware or a naive
  datetime (as an instant), or nothing when it raises \<^verbatim>\<open>ValueError\<close>. Comparing a naive
  datetime with the aware cutoff raises \<^verbatim>\<open>TypeError\<close>. \<open>delete_raises\<close> says for which
  memory ids \<^verbatim>\<open>memory.delete\<close> raises, and with what message.
\<close>

datatype pydatetime = Aware int | Naive int

record loop_state =
  deleted_count :: nat
  errors :: "string list"
  calls :: "lib_call list"

fun delete_loop ::
  "(string \<Rightarrow> pydatetime option) \<Rightarrow> (string \<Rightarrow> exn option) \<Rightarrow> int \<Rightarrow> mem list \<Rightarrow>
   loop_state \<Rightarrow> exn option \<times> loop_state" where
  "delete_loop fromisoformat delete_raises cutoff_date [] s = (None, s)"
| "delete_loop fromisoformat delete_raises cutoff_date (m # ms) s =
     (if falsy (created_at m) then delete_loop fromisoformat delete_raises cutoff_date ms s
      else
        (case fromisoformat (py_format (created_at m)) of
           None \<Rightarrow>
             (Some (''Invalid isoformat string: '' @ [CHR 0x27] @ py_format (created_at m) @
                    [CHR 0x27]), s)
         | Some (Naive t) \<Rightarrow>
             (Some ''can't compare offset-naive and offset-aware datetimes'', s)
         | Some (Aware memory_date) \<Rightarrow>
             if memory_date < cutoff_date
             then
               (case delete_raises (mem_id m) of
                  None \<Rightarrow>
                    delete_loop fromisoformat delete_raises cutoff_date ms
                      (s\<lparr>deleted_count := deleted_count s + 1,
                         calls := calls s @ [Mem0Delete (mem_id m)]\<rparr>)
                | Some e \<Rightarrow>
                    delete_loop fromisoformat delete_raises cutoff_date ms
                      (s\<lparr>errors := errors s @
                           [''Could not delete memory '' @ mem_id m @ '': '' @ e],
                         calls := calls s @ [Mem0Delete (mem_id m)]\<rparr>))
             else delete_loop fromisoformat delete_raises cutoff_date ms s))"

text \<open>
  The handler; \<open>now\<close> is \<^verbatim>\<open>datetime.now(timezone.utc)\<close> as an instant, and the cutoff is
  90 days before it (a clock reading is far enough from \<^verbatim>\<open>datetime.min\<close> for the
  subtraction to stay in range). \<open>get_all_result\<close> is what \<^verbatim>\<open>memory.get_all\<close> does when
  called: it raises, or returns a dictionary with or without \<open>results\<close>. The handler
  subscripts the body before its \<^verbatim>\<open>try\<close>; \<open>delete_for\<close> is the handler from the
  cutoff on, for the \<open>user_id\<close> it has read.
\<close>

definition delete_for ::
  "string option \<Rightarrow> int \<Rightarrow> (string \<Rightarrow> pydatetime option) \<Rightarrow> exn + mem list option \<Rightarrow>
   (string \<Rightarrow> exn option) \<Rightarrow> response \<times> lib_call list" where
  "delete_for uid now fromisoformat get_all_result delete_raises =
    (let cutoff_date = now - 90 * us_per_day;
         s0 = \<lparr>deleted_count = 0, errors = [], calls = [Mem0GetAll uid]\<rparr>
     in (case get_all_result of
           Inl e \<Rightarrow>
             (jsonify [(''status'', JStr ''error''), (''message'', JStr e)] 500, calls s0)
         | Inr get_all_response \<Rightarrow>
             let user_memories = (case get_all_response of None \<Rightarrow> [] | Some xs \<Rightarrow> xs)
             in (case delete_loop fromisoformat delete_raises cutoff_date user_memories s0 of
                   (Some e, s) \<Rightarrow>
                     (jsonify [(''status'', JStr ''error''), (''message'', JStr e)] 500,
                      calls s)
                 | (None, s) \<Rightarrow>
                     if errors s \<noteq> []
                     then (jsonify [(''status'', JStr ''partial_success''),
                                    (''deleted_count'', JInt (int (deleted_count s))),
                                    (''errors'', JArr (map JStr (errors s)))] 207, calls s)
                     else (jsonify [(''status'', JStr ''success''),
                                    (''deleted_count'', JInt (int (deleted_count s)))] 200,
                           calls s))))"

definition mem0_delete_old_memories ::
  "mstate \<Rightarrow> json_body \<Rightarrow> int \<Rightarrow> (string \<Rightarrow> pydatetime option) \<Rightarrow> exn + mem list option \<Rightarrow>
   (string \<Rightarrow> exn option) \<Rightarrow> response \<times> lib_call list" where
  "mem0_delete_old_memories st b now fromisoformat get_all_result delete_raises =
    (if \<not> memory st
     then (jsonify [(''status'', JStr ''error''),
                    (''message'', JStr ''Memory not initialized'')] 500, [])
     else
       (case invalid b [(''user_id'', user_id)] of
          Inl e \<Rightarrow> (unhandled, [])
        | Inr missing \<Rightarrow>
            if missing
            then (jsonify [(''status'', JStr ''error''),
                           (''message'', JStr ''Missing 'user_id' in request'')] 400, [])
            else
              (case b of
                 BObj p \<Rightarrow>
                   delete_for (payload_get (user_id p)) now fromisoformat get_all_result
                     delete_raises
               | _ \<Rightarrow> (unhandled, []))))"

text \<open>
  How the loop sees a record: \<open>readable\<close> when \<open>created_at\<close> is absent or empty, or
  parses to an aware datetime; \<open>is_old\<close> when it parses to an aware datetime before the
  cutoff; \<open>malformed\<close> when it is a non-empty string that does not parse.
  \<open>delete_error\<close> is the entry the loop appends when \<^verbatim>\<open>memory.delete\<close> raises.
\<close>

definition readable :: "(string \<Rightarrow> pydatetime option) \<Rightarrow> mem \<Rightarrow> bool" where
  "readable f m \<longleftrightarrow>
     falsy (created_at m) \<or>
     (case f (py_format (created_at m)) of Some (Aware t) \<Rightarrow> True | _ \<Rightarrow> False)"

definition is_old :: "(string \<Rightarrow> pydatetime option) \<Rightarrow> int \<Rightarrow> mem \<Rightarrow> bool" where
  "is_old f cutoff m \<longleftrightarrow>
     \<not> falsy (created_at m) \<and>
     (case f (py_format (created_at m)) of Some (Aware t) \<Rightarrow> t < cutoff | _ \<Rightarrow> False)"

definition malformed :: "(string \<Rightarrow> pydatetime option) \<Rightarrow> mem \<Rightarrow> bool" where
  "malformed f m \<longleftrightarrow> \<not> falsy (created_at m) \<and> f (py_format (created_at m)) = None"

definition delete_error :: "(string \<Rightarrow> exn option) \<Rightarrow> mem \<Rightarrow> string" where
  "delete_error dr m =
    ''Could not delete memory '' @ mem_id m @ '': '' @
    (case dr (mem_id m) of None \<Rightarrow> [] | Some e \<Rightarrow> e)"

section \<open>Routes\<close>

text \<open>
  The routes each application declares with \<^verbatim>\<open>@app.route\<close>. The framework answers a
  path that no route matches with 404 and a matching path with another method with 405.
\<close>

datatype http_method = GET | POST

definition cognee_routes :: "(string \<times> http_method) list" where
  "cognee_routes =
    [(''/health'', GET), (''/add'', POST), (''/search'', POST), (''/delete'', POST),
     (''/config'', GET)]"

definition graphiti_routes :: "(string \<times> http_method) list" where
  "graphiti_routes =
    [(''/health'', GET), (''/ingest'', POST), (''/strict_search'', POST), (''/delete_old'', POST)]"

definition mem0_routes :: "(string \<times> http_method) list" where
  "mem0_routes = [(''/add'', POST), (''/search'', POST), (''/delete_old'', POST)]"

definition unrouted :: "(string \<times> http_method) list \<Rightarrow> http_method \<Rightarrow> string \<Rightarrow> nat option" where
  "unrouted routes m path =
    (if (path, m) \<in> set routes then None
     else if path \<in> fst ` set routes then Some 405
     else Some 404)"

text \<open>
  Service C as an application: what the library does when called is gathered in one
  record.
\<close>

record mem0_lib =
  lib_now :: int
  lib_fromisoformat :: "string \<Rightarrow> pydatetime option"
  lib_add_raises :: "exn option"
  lib_search_result :: "exn + raw_response"
  lib_get_all_result :: "exn + mem list option"
  lib_delete_raises :: "string \<Rightarrow> exn option"

definition mem0_app ::
  "mstate \<Rightarrow> mem0_lib \<Rightarrow> http_method \<Rightarrow> string \<Rightarrow> json_body \<Rightarrow> response \<times> lib_call list" where
  "mem0_app st lib m path b =
    (case unrouted mem0_routes m path of
       Some c \<Rightarrow> (jsonify [] c, [])
     | None \<Rightarrow>
         if path = ''/add'' then mem0_add_memory st b (lib_add_raises lib)
         else if path = ''/search'' then mem0_search_memories st b (lib_search_result lib)
         else mem0_delete_old_memories st b (lib_now lib) (lib_fromisoformat lib)
                (lib_get_all_result lib) (lib_delete_raises lib))"

section \<open>Example values\<close>

text \<open>
  The empty JSON object, initialised and uninitialised globals, and a library that
  raises nothing and holds nothing. \<open>iso_table\<close> is a finite fragment of
  \<^verbatim>\<open>datetime.fromisoformat\<close>: the instants of three timestamps, a naive one among them;
  every other string is taken to be malformed.
\<close>

definition empty_payload :: payload where
  "empty_payload =
    \<lparr>data = KAbsent, query = KAbsent, category = KAbsent, user_id = KAbsent,
     categories = None, days = None\<rparr>"

definition ready :: gstate where
  "ready = \<lparr>graphiti = True, async_driver = True\<rparr>"

definition starting :: gstate where
  "starting = \<lparr>graphiti = False, async_driver = False\<rparr>"

definition iso_table :: "string \<Rightarrow> pydatetime option" where
  "iso_table =
    map_of [(''2020-01-01T00:00:00+00:00'', Aware 63713433600000000),
            (''2026-11-01T00:00:00+00:00'', Aware 63929088000000000),
            (''2020-01-01T00:00:00'', Naive 63713433600000000)]"

definition quiet_lib :: mem0_lib where
  "quiet_lib =
    \<lparr>lib_now = 63929347200000000, lib_fromisoformat = iso_table, lib_add_raises = None,
     lib_search_result = Inr (RawDict (Some [])), lib_get_all_result = Inr (Some []),
     lib_delete_raises = (\<lambda>_. None)\<rparr>"

text \<open>
  Memory records, a search request and a delete request of user \<^verbatim>\<open>u1\<close>, two timestamps
  on either side of the cutoff, and a library whose \<^verbatim>\<open>delete\<close> raises for \<^verbatim>\<open>m4\<close> only.
\<close>

definition memo :: "string \<Rightarrow> string option \<Rightarrow> string \<Rightarrow> mem" where
  "memo i ts cat =
    \<lparr>mem_id = i, mem_text = ''text'', created_at = ts,
     metadata = MetaDict [(''category'', cat)]\<rparr>"


definition old_ts :: string where "old_ts = ''2020-01-01T00:00:00+00:00''"

definition delete_request :: payload where
  "delete_request = empty_payload\<lparr>user_id := KStr ''u1''\<rparr>"


text \<open>
  Databases of user \<^verbatim>\<open>u1\<close> with the datasets \<^verbatim>\<open>u1_work\<close> (id 7) and \<^verbatim>\<open>u1_home\<close>
  (id 8): one where every data row is in one dataset, one where a single old data row is
  in both, one where the only old data row is in the dataset \<^verbatim>\<open>u2_work\<close> (id 9) of
  another user, and an empty one; and a cleanup request for both categories.
\<close>

definition tidy_db :: db where
  "tidy_db =
    \<lparr>datasets = [\<lparr>ds_id = 7, ds_name = ''u1_work''\<rparr>, \<lparr>ds_id = 8, ds_name = ''u1_home''\<rparr>],
     data_rows = [\<lparr>d_id = 10, updated_at = Some 63713433600000000\<rparr>,
                  \<lparr>d_id = 11, updated_at = Some 63929088000000000\<rparr>,
                  \<lparr>d_id = 12, updated_at = Some 63713433600000000\<rparr>],
     dataset_data = [(7, 10), (7, 11), (8, 12)],
     acls = [(100, 7), (101, 8)],
     dataset_database = [(200, 7), (201, 8)],
     pipeline_runs = [(300, 8)]\<rparr>"

definition shared_db :: db where
  "shared_db =
    \<lparr>datasets = [\<lparr>ds_id = 7, ds_name = ''u1_work''\<rparr>, \<lparr>ds_id = 8, ds_name = ''u1_home''\<rparr>],
     data_rows = [\<lparr>d_id = 10, updated_at = Some 63713433600000000\<rparr>],
     dataset_data = [(7, 10), (8, 10)],
     acls = [], dataset_database = [], pipeline_runs = []\<rparr>"

definition lodger_db :: db where
  "lodger_db =
    \<lparr>datasets = [\<lparr>ds_id = 7, ds_name = ''u1_work''\<rparr>, \<lparr>ds_id = 9, ds_name = ''u2_work''\<rparr>],
     data_rows = [\<lparr>d_id = 11, updated_at = Some 63929088000000000\<rparr>,
                  \<lparr>d_id = 13, updated_at = Some 63713433600000000\<rparr>],
     dataset_data = [(7, 11), (9, 13)],
     acls = [], dataset_database = [], pipeline_runs = []\<rparr>"

definition empty_db :: db where
  "empty_db =
    \<lparr>datasets = [], data_rows = [], dataset_data = [], acls = [], dataset_database = [],
     pipeline_runs = []\<rparr>"

definition cleanup_request :: "int \<Rightarrow> payload" where
  "cleanup_request n =
    empty_payload\<lparr>user_id := KStr ''u1'', categories := Some (CatsList [''work'', ''home'']),
                  days := Some n\<rparr>"

text \<open>
  Episodic nodes as the ingest handler names them, a graph with episodes of \<^verbatim>\<open>alice\<close>
  and \<^verbatim>\<open>bob\<close>, and a graph with episodes of two users whose ids hold underscores.
\<close>

definition episode :: "nat \<Rightarrow> string \<Rightarrow> int \<Rightarrow> gnode" where
  "episode i uid t = \<lparr>node_id = i, episodic = True, name = episode_name (Some uid) t\<rparr>"

definition three_episodes :: graph where
  "three_episodes =
    \<lparr>nodes = [episode 1 ''alice'' 1000, episode 2 ''alice'' 1762000000, episode 3 ''bob'' 1000],
     rels = [(1, 2), (2, 3)]\<rparr>"

definition underscore_episodes :: graph where
  "underscore_episodes =
    \<lparr>nodes = [episode 1 ''a_b'' 1000, episode 2 ''a_Ingest_5'' 1762250000],
     rels = [(1, 2)]\<rparr>"

section \<open>Bodies that are dictionaries\<close>

text \<open>
  On a dictionary \<^verbatim>\<open>payload.get\<close> is defined, and the validation of service C tests
  the presence of the keys and nothing else.
\<close>

lemma as_dict_BObj: "as_dict (BObj p) = Inr p"
  by (simp add: as_dict_def)

lemma invalid_add: "invalid (BObj p) [(k1, data), (k2, user_id)] =
    Inr (data p = KAbsent \<or> user_id p = KAbsent)"
  by (auto simp: invalid_def not_body_def empty_body_def key_in_def)


lemma invalid_delete: "invalid (BObj p) [(k, user_id)] = Inr (user_id p = KAbsent)"
  by (auto simp: invalid_def not_body_def empty_body_def key_in_def)

lemma delete_old_passes:
  "memory ms \<Longrightarrow> user_id p \<noteq> KAbsent \<Longrightarrow>
   mem0_delete_old_memories ms (BObj p) now f r dr =
     delete_for (payload_get (user_id p)) now f r dr"
  by (simp add: mem0_delete_old_memories_def invalid_delete)

section \<open>The composite key\<close>

text \<open>A separator that occurs in neither prefix cuts a string in one way only.\<close>

lemma sep_append_unique:
  "c \<notin> set xs \<Longrightarrow> c \<notin> set ys \<Longrightarrow> xs @ c # a = ys @ c # b \<Longrightarrow> xs = ys \<and> a = b"
  by (induction xs arbitrary: ys) (auto simp: Cons_eq_append_conv)




section \<open>Validation of add and ingest requests\<close>

text \<open>
  C7 (as amended). A request whose body is a JSON object that lacks \<open>data\<close> or
  \<open>user_id\<close> never reaches the wrapped library's add primitive in any of the three
  services. Service A answers 400. Services B and C test their global first: they
  answer 400 when it is initialised and 500 when it is not. A body that is no JSON
  object never reaches the add primitive either.
\<close>

theorem add_missing_field_rejected:
  assumes "data p = KAbsent \<or> user_id p = KAbsent"
  shows "code (fst (cognee_add_memory (BObj p) a1 c1)) = 400 \<and>
         snd (cognee_add_memory (BObj p) a1 c1) = [] \<and>
         code (fst (graphiti_add_data gs (BObj p) now a2)) = (if graphiti gs then 400 else 500) \<and>
         snd (graphiti_add_data gs (BObj p) now a2) = [] \<and>
         code (fst (mem0_add_memory ms (BObj p) a3)) = (if memory ms then 400 else 500) \<and>
         snd (mem0_add_memory ms (BObj p) a3) = [] \<and>
         (\<not> is_dict b \<longrightarrow>
            snd (cognee_add_memory b a1 c1) = [] \<and>
            snd (graphiti_add_data gs b now a2) = [] \<and>
            snd (mem0_add_memory ms b a3) = [])"
proof -
  have obj: "code (fst (cognee_add_memory (BObj p) a1 c1)) = 400 \<and>
         snd (cognee_add_memory (BObj p) a1 c1) = [] \<and>
         code (fst (graphiti_add_data gs (BObj p) now a2)) = (if graphiti gs then 400 else 500) \<and>
         snd (graphiti_add_data gs (BObj p) now a2) = [] \<and>
         code (fst (mem0_add_memory ms (BObj p) a3)) = (if memory ms then 400 else 500) \<and>
         snd (mem0_add_memory ms (BObj p) a3) = []"
    using assms
    by (auto simp: cognee_add_memory_def graphiti_add_data_def mem0_add_memory_def as_dict_def
        invalid_def not_body_def key_in_def payload_get_def falsy_def jsonify_def Let_def)
  have other: "snd (cognee_add_memory b a1 c1) = [] \<and>
            snd (graphiti_add_data gs b now a2) = [] \<and>
            snd (mem0_add_memory ms b a3) = []" if "\<not> is_dict b"
    using that
    by (cases b)
       (auto simp: cognee_add_memory_def graphiti_add_data_def mem0_add_memory_def as_dict_def
          is_dict_def split: sum.splits)
  from obj other show ?thesis by blast
qed

text \<open>
  The theorem at an object that holds a \<open>user_id\<close> only and at the body \<^verbatim>\<open>null\<close>, with
  every global initialised.
\<close>

theorem add_missing_field_rejected_witness:
  "data (empty_payload\<lparr>user_id := KStr ''u1''\<rparr>) = KAbsent \<and>
   code (fst (cognee_add_memory (BObj (empty_payload\<lparr>user_id := KStr ''u1''\<rparr>)) None None))
     = 400 \<and>
   snd (cognee_add_memory (BObj (empty_payload\<lparr>user_id := KStr ''u1''\<rparr>)) None None) = [] \<and>
   code (fst (graphiti_add_data ready (BObj (empty_payload\<lparr>user_id := KStr ''u1''\<rparr>))
                1762250000 None)) = 400 \<and>
   code (fst (mem0_add_memory \<lparr>memory = True\<rparr> (BObj (empty_payload\<lparr>user_id := KStr ''u1''\<rparr>))
                None)) = 400 \<and>
   \<not> is_dict BNull \<and>
   snd (cognee_add_memory BNull None None) = [] \<and>
   snd (graphiti_add_data ready BNull 1762250000 None) = [] \<and>
   snd (mem0_add_memory \<lparr>memory = True\<rparr> BNull None) = []"
  using add_missing_field_rejected
    [of "empty_payload\<lparr>user_id := KStr ''u1''\<rparr>" None None ready 1762250000 None
        "\<lparr>memory = True\<rparr>" None BNull]
  by (simp add: empty_payload_def ready_def is_dict_def)

text \<open>
  The claim as stated (always 400) fails where the global is not initialised: service C
  with \<^verbatim>\<open>memory\<close> still \<open>None\<close> answers a body without \<open>data\<close> with 500, and so does
  service B before \<^verbatim>\<open>startup\<close> has run. It fails as well at the body \<^verbatim>\<open>null\<close>, which
  holds no \<open>data\<close>: service A answers it with 500.
\<close>

theorem add_missing_field_uninitialised_500:
  "code (fst (mem0_add_memory \<lparr>memory = False\<rparr> (BObj (empty_payload\<lparr>user_id := KStr ''u1''\<rparr>))
                None)) = 500 \<and>
   code (fst (graphiti_add_data starting (BObj (empty_payload\<lparr>user_id := KStr ''u1''\<rparr>))
                1762250000 None)) = 500 \<and>
   code (fst (cognee_add_memory BNull None None)) = 500"
  by (simp add: mem0_add_memory_def graphiti_add_data_def cognee_add_memory_def as_dict_def
      jsonify_def starting_def)

text \<open>
  C9 (as amended). For a body that is a JSON object, service C's add handler answers
  400 only when \<open>data\<close> or \<open>user_id\<close> is absent, and with \<^verbatim>\<open>memory\<close> initialised exactly
  then; with \<^verbatim>\<open>memory\<close> initialised, two keys that are present pass the validation
  whether they hold a string, the empty one included, or \<^verbatim>\<open>null\<close>, and \<^verbatim>\<open>memory.add\<close>
  is called with what they hold. In service A a \<open>data\<close> or \<open>user_id\<close> that is empty (or
  \<^verbatim>\<open>null\<close>) gives 400, and in service B it does when \<^verbatim>\<open>graphiti\<close> is initialised.
  With \<^verbatim>\<open>memory\<close> initialised, a body that is empty (\<^verbatim>\<open>not payload\<close>) gives 400 in
  service C, and \<^verbatim>\<open>memory.add\<close> is not called.
\<close>

theorem mem0_add_checks_presence_only:
  "(code (fst (mem0_add_memory ms (BObj p) a)) = 400 \<longrightarrow>
      data p = KAbsent \<or> user_id p = KAbsent) \<and>
   (memory ms \<longrightarrow>
      (code (fst (mem0_add_memory ms (BObj p) a)) = 400 \<longleftrightarrow>
         data p = KAbsent \<or> user_id p = KAbsent)) \<and>
   (memory ms \<and> data p \<noteq> KAbsent \<and> user_id p \<noteq> KAbsent \<longrightarrow>
      snd (mem0_add_memory ms (BObj p) a) =
        [Mem0Add (payload_get (data p)) (payload_get (user_id p))
           (payload_get_or (category p) ''general'')]) \<and>
   (memory ms \<and> data p = KStr [] \<and> user_id p = KStr [] \<longrightarrow>
      snd (mem0_add_memory ms (BObj p) a) =
        [Mem0Add (Some []) (Some []) (payload_get_or (category p) ''general'')]) \<and>
   (falsy (payload_get (data p)) \<or> falsy (payload_get (user_id p)) \<longrightarrow>
      code (fst (cognee_add_memory (BObj p) a1 a2)) = 400 \<and>
      (graphiti gs \<longrightarrow> code (fst (graphiti_add_data gs (BObj p) now a3)) = 400)) \<and>
   (memory ms \<and> not_body b \<longrightarrow>
      code (fst (mem0_add_memory ms b a)) = 400 \<and> snd (mem0_add_memory ms b a) = [])"
  by (auto simp: mem0_add_memory_def cognee_add_memory_def graphiti_add_data_def as_dict_def
      invalid_def not_body_def empty_body_def key_in_def payload_get_def falsy_def jsonify_def
      Let_def split: option.splits)

text \<open>
  The theorem at an object with a \<open>user_id\<close> only, at an object with two empty strings,
  at an object whose \<open>data\<close> is \<^verbatim>\<open>null\<close>, and at the body \<^verbatim>\<open>null\<close>.
\<close>

theorem mem0_add_checks_presence_only_witness:
  "code (fst (mem0_add_memory \<lparr>memory = True\<rparr> (BObj (empty_payload\<lparr>user_id := KStr ''u1''\<rparr>))
                None)) = 400 \<and>
   snd (mem0_add_memory \<lparr>memory = True\<rparr>
          (BObj (empty_payload\<lparr>data := KStr '''', user_id := KStr ''''\<rparr>)) None) =
     [Mem0Add (Some '''') (Some '''') (Some ''general'')] \<and>
   code (fst (mem0_add_memory \<lparr>memory = True\<rparr>
          (BObj (empty_payload\<lparr>data := KStr '''', user_id := KStr ''''\<rparr>)) None)) = 201 \<and>
   code (fst (cognee_add_memory (BObj (empty_payload\<lparr>data := KStr '''', user_id := KStr ''''\<rparr>))
          None None)) = 400 \<and>
   code (fst (graphiti_add_data ready
          (BObj (empty_payload\<lparr>data := KStr '''', user_id := KStr ''''\<rparr>)) 1762250000 None))
     = 400 \<and>
   snd (mem0_add_memory \<lparr>memory = True\<rparr>
          (BObj (empty_payload\<lparr>data := KNull, user_id := KStr ''u1''\<rparr>)) None) =
     [Mem0Add None (Some ''u1'') (Some ''general'')] \<and>
   code (fst (mem0_add_memory \<lparr>memory = True\<rparr>
          (BObj (empty_payload\<lparr>data := KNull, user_id := KStr ''u1''\<rparr>)) None)) = 201 \<and>
   code (fst (cognee_add_memory (BObj (empty_payload\<lparr>data := KNull, user_id := KStr ''u1''\<rparr>))
          None None)) = 400 \<and>
   not_body BNull \<and>
   code (fst (mem0_add_memory \<lparr>memory = True\<rparr> BNull None)) = 400"
  using mem0_add_checks_presence_only
    [of "\<lparr>memory = True\<rparr>" "empty_payload\<lparr>data := KStr '''', user_id := KStr ''''\<rparr>" None None None
        ready 1762250000 None BNull]
    mem0_add_checks_presence_only
    [of "\<lparr>memory = True\<rparr>" "empty_payload\<lparr>user_id := KStr ''u1''\<rparr>" None None None
        ready 1762250000 None BNull]
    mem0_add_checks_presence_only
    [of "\<lparr>memory = True\<rparr>" "empty_payload\<lparr>data := KNull, user_id := KStr ''u1''\<rparr>" None None None
        ready 1762250000 None BNull]
  by (simp add: empty_payload_def ready_def payload_get_def payload_get_or_def falsy_def
      not_body_def mem0_add_memory_def invalid_add jsonify_def)

text \<open>
  The claim as stated fails where the global is not initialised: with \<^verbatim>\<open>memory\<close> still
  \<open>None\<close>, two empty strings give 500 and no call of \<^verbatim>\<open>memory.add\<close>; and service B
  answers an empty \<open>data\<close> with 500, not 400, before \<^verbatim>\<open>startup\<close> has run.
\<close>

theorem mem0_add_uninitialised_not_invoked:
  "snd (mem0_add_memory \<lparr>memory = False\<rparr>
          (BObj (empty_payload\<lparr>data := KStr '''', user_id := KStr ''''\<rparr>)) None) = [] \<and>
   code (fst (mem0_add_memory \<lparr>memory = False\<rparr>
          (BObj (empty_payload\<lparr>data := KStr '''', user_id := KStr ''''\<rparr>)) None)) = 500 \<and>
   code (fst (graphiti_add_data starting
          (BObj (empty_payload\<lparr>data := KStr '''', user_id := KStr ''''\<rparr>)) 1762250000 None))
     = 500"
  by (simp add: mem0_add_memory_def graphiti_add_data_def jsonify_def starting_def)

section \<open>Health\<close>

text \<open>
  C8 (as amended). Service B's health handler answers healthy (200) exactly when both
  \<^verbatim>\<open>graphiti\<close> and \<^verbatim>\<open>async_driver\<close> are initialised, and unhealthy (503) otherwise; it
  calls no library and touches no state. Service A's health handler reads no singleton
  and calls no library. Service C declares no \<^verbatim>\<open>/health\<close> route: the framework answers
  404 whatever the state of \<^verbatim>\<open>memory\<close>.
\<close>

theorem health_reflects_singletons:
  "code (fst (graphiti_health_check st)) = (if graphiti st \<and> async_driver st then 200 else 503) \<and>
   (map_of (body (fst (graphiti_health_check st))) ''status'' = Some (JStr ''healthy'')
      \<longleftrightarrow> graphiti st \<and> async_driver st) \<and>
   snd (graphiti_health_check st) = [] \<and>
   snd (cognee_health_check ts) = [] \<and>
   (''/health'', GET) \<in> set cognee_routes \<and>
   (''/health'', GET) \<in> set graphiti_routes \<and>
   (''/health'', GET) \<notin> set mem0_routes \<and>
   mem0_app ms lib GET ''/health'' b = (jsonify [] 404, [])"
  by (simp add: graphiti_health_check_def cognee_health_check_def jsonify_def mem0_app_def
      unrouted_def mem0_routes_def cognee_routes_def graphiti_routes_def cognee_globals_def
      lookup_global_def)

text \<open>
  The claim as stated (every service, healthy exactly when initialised) fails: service C
  with \<^verbatim>\<open>memory\<close> initialised answers \<^verbatim>\<open>GET /health\<close> with 404 and no status, and
  service A's handler answers unhealthy, because the name \<^verbatim>\<open>datetime\<close> is bound to the
  class when \<^verbatim>\<open>datetime.datetime.now()\<close> is evaluated.
\<close>

theorem health_not_every_service:
  "code (fst (mem0_app \<lparr>memory = True\<rparr> quiet_lib GET ''/health'' (BObj empty_payload))) = 404 \<and>
   map_of (body (fst (mem0_app \<lparr>memory = True\<rparr> quiet_lib GET ''/health'' (BObj empty_payload))))
     ''status'' = None \<and>
   code (fst (cognee_health_check ''2026-11-04T00:00:00'')) = 500 \<and>
   map_of (body (fst (cognee_health_check ''2026-11-04T00:00:00''))) ''status''
     = Some (JStr ''unhealthy'')"
  by (simp add: graphiti_health_check_def cognee_health_check_def jsonify_def mem0_app_def
      unrouted_def mem0_routes_def cognee_globals_def lookup_global_def)

section \<open>Service C: the category preference\<close>


lemma preferred_of_null:
  "isl (preferred_of c cs) \<longleftrightarrow> (\<exists>m \<in> set cs. metadata m = MetaNull)"
  by (induction cs) (auto simp: category_is_def split: meta_field.splits sum.splits)




section \<open>Service C: delete_old\<close>

text \<open>
  The loop over readable records never aborts: it counts the old records whose delete
  succeeds, collects one error for each old record whose delete raises, and calls
  \<^verbatim>\<open>memory.delete\<close> once for each old record, in order. A record without \<open>created_at\<close>
  can be dropped from the list, a malformed one aborts the loop, and a readable prefix
  is processed before the rest.
\<close>

lemma delete_loop_readable:
  "\<forall>m \<in> set rs. readable f m \<Longrightarrow>
   delete_loop f dr cutoff rs s =
     (None,
      \<lparr>deleted_count =
         deleted_count s + length [m \<leftarrow> rs. is_old f cutoff m \<and> dr (mem_id m) = None],
       errors =
         errors s @ map (delete_error dr) [m \<leftarrow> rs. is_old f cutoff m \<and> dr (mem_id m) \<noteq> None],
       calls = calls s @ map (\<lambda>m. Mem0Delete (mem_id m)) [m \<leftarrow> rs. is_old f cutoff m]\<rparr>)"
proof (induction rs arbitrary: s)
  case Nil
  then show ?case by simp
next
  case (Cons m rs)
  then have rest: "\<forall>x \<in> set rs. readable f x" and here: "readable f m"
    by simp_all
  show ?case
    using here
    by (auto simp: Cons.IH [OF rest] readable_def is_old_def delete_error_def
        split: option.splits pydatetime.splits)
qed

lemma delete_loop_skip:
  "falsy (created_at m) \<Longrightarrow>
   delete_loop f dr cutoff (xs @ m # ys) s = delete_loop f dr cutoff (xs @ ys) s"
  by (induction xs arbitrary: s) (auto split: option.splits pydatetime.splits)

lemma delete_loop_malformed:
  "m \<in> set rs \<Longrightarrow> malformed f m \<Longrightarrow> fst (delete_loop f dr cutoff rs s) \<noteq> None"
  by (induction rs arbitrary: s) (auto simp: malformed_def split: option.splits pydatetime.splits)

lemma delete_loop_append:
  "\<forall>x \<in> set xs. readable f x \<Longrightarrow>
   delete_loop f dr cutoff (xs @ ys) s =
     delete_loop f dr cutoff ys (snd (delete_loop f dr cutoff xs s))"
  by (induction xs arbitrary: s)
     (auto simp: readable_def split: option.splits pydatetime.splits)





text \<open>
  C10. With \<^verbatim>\<open>memory\<close> initialised and a request whose body is a JSON object that
  holds \<open>user_id\<close>: a fetched record
  without \<open>created_at\<close> is skipped, so the handler answers and calls exactly as it would
  without that record; a fetched record whose \<open>created_at\<close> does not parse makes the
  handler answer 500 with no \<open>deleted_count\<close> in the body; and when the records before
  it are readable, the deletes of the old ones among them have been issued all the same.
\<close>

theorem delete_old_timestamps:
  assumes "memory ms" "user_id p \<noteq> KAbsent"
  shows "(falsy (created_at m) \<longrightarrow>
            mem0_delete_old_memories ms (BObj p) now f (Inr (Some (xs @ m # ys))) dr =
            mem0_delete_old_memories ms (BObj p) now f (Inr (Some (xs @ ys))) dr) \<and>
         (malformed f m \<longrightarrow>
            code (fst (mem0_delete_old_memories ms (BObj p) now f (Inr (Some (xs @ m # ys))) dr)) = 500 \<and>
            map_of (body (fst (mem0_delete_old_memories ms (BObj p) now f (Inr (Some (xs @ m # ys))) dr)))
              ''deleted_count'' = None) \<and>
         (malformed f m \<and> (\<forall>x \<in> set xs. readable f x) \<longrightarrow>
            snd (mem0_delete_old_memories ms (BObj p) now f (Inr (Some (xs @ m # ys))) dr) =
              Mem0GetAll (payload_get (user_id p)) #
              map (\<lambda>x. Mem0Delete (mem_id x)) [x \<leftarrow> xs. is_old f (now - 90 * us_per_day) x])"
proof -
  let ?cutoff = "now - 90 * us_per_day"
  let ?s0 = "\<lparr>deleted_count = 0, errors = [],
              calls = [Mem0GetAll (payload_get (user_id p))]\<rparr>"
  have skip: "falsy (created_at m) \<longrightarrow>
            mem0_delete_old_memories ms (BObj p) now f (Inr (Some (xs @ m # ys))) dr =
            mem0_delete_old_memories ms (BObj p) now f (Inr (Some (xs @ ys))) dr"
    by (simp add: mem0_delete_old_memories_def delete_for_def delete_loop_skip Let_def
        split: sum.splits json_body.splits)
  have abort: "code (fst (mem0_delete_old_memories ms (BObj p) now f (Inr (Some (xs @ m # ys))) dr)) = 500 \<and>
            map_of (body (fst (mem0_delete_old_memories ms (BObj p) now f (Inr (Some (xs @ m # ys))) dr)))
              ''deleted_count'' = None" if bad: "malformed f m"
  proof -
    have "fst (delete_loop f dr ?cutoff (xs @ m # ys) ?s0) \<noteq> None"
      using delete_loop_malformed [of m "xs @ m # ys" f dr ?cutoff ?s0] bad by simp
    then obtain e s where "delete_loop f dr ?cutoff (xs @ m # ys) ?s0 = (Some e, s)"
      by (cases "delete_loop f dr ?cutoff (xs @ m # ys) ?s0") auto
    then show ?thesis
      using assms
      by (simp add: delete_old_passes delete_for_def jsonify_def Let_def)
  qed
  have issued: "snd (mem0_delete_old_memories ms (BObj p) now f (Inr (Some (xs @ m # ys))) dr) =
              Mem0GetAll (payload_get (user_id p)) #
              map (\<lambda>x. Mem0Delete (mem_id x)) [x \<leftarrow> xs. is_old f ?cutoff x]"
    if bad: "malformed f m" and pre: "\<forall>x \<in> set xs. readable f x"
  proof -
    have "delete_loop f dr ?cutoff (xs @ m # ys) ?s0 =
            delete_loop f dr ?cutoff (m # ys) (snd (delete_loop f dr ?cutoff xs ?s0))"
      using pre by (rule delete_loop_append)
    also have "\<dots> = (Some (''Invalid isoformat string: '' @ [CHR 0x27] @
                             py_format (created_at m) @ [CHR 0x27]),
                      snd (delete_loop f dr ?cutoff xs ?s0))"
      using bad by (simp add: malformed_def)
    finally show ?thesis
      using assms delete_loop_readable [OF pre, of dr ?cutoff ?s0]
      by (simp add: delete_old_passes delete_for_def Let_def)
  qed
  from skip abort issued show ?thesis by blast
qed

text \<open>
  The theorem at an old record followed by one without \<open>created_at\<close>, and at an old
  record followed by a malformed one.
\<close>

theorem delete_old_timestamps_witness:
  "falsy (created_at (memo ''m3'' None ''work'')) \<and>
   malformed iso_table (memo ''m2'' (Some ''yesterday'') ''work'') \<and>
   mem0_delete_old_memories \<lparr>memory = True\<rparr> (BObj delete_request) 63929347200000000 iso_table
     (Inr (Some ([memo ''m1'' (Some old_ts) ''work''] @ memo ''m3'' None ''work'' # []))) (\<lambda>i. None) =
   mem0_delete_old_memories \<lparr>memory = True\<rparr> (BObj delete_request) 63929347200000000 iso_table
     (Inr (Some ([memo ''m1'' (Some old_ts) ''work''] @ []))) (\<lambda>i. None) \<and>
   code (fst (mem0_delete_old_memories \<lparr>memory = True\<rparr> (BObj delete_request) 63929347200000000 iso_table
     (Inr (Some ([memo ''m1'' (Some old_ts) ''work''] @
                 memo ''m2'' (Some ''yesterday'') ''work'' # []))) (\<lambda>i. None))) = 500 \<and>
   snd (mem0_delete_old_memories \<lparr>memory = True\<rparr> (BObj delete_request) 63929347200000000 iso_table
     (Inr (Some ([memo ''m1'' (Some old_ts) ''work''] @
                 memo ''m2'' (Some ''yesterday'') ''work'' # []))) (\<lambda>i. None)) =
     [Mem0GetAll (Some ''u1''), Mem0Delete ''m1'']"
  using delete_old_timestamps
    [of "\<lparr>memory = True\<rparr>" delete_request "memo ''m3'' None ''work''"
        63929347200000000 iso_table "[memo ''m1'' (Some old_ts) ''work'']" "[]" "\<lambda>i. None"]
    delete_old_timestamps
    [of "\<lparr>memory = True\<rparr>" delete_request "memo ''m2'' (Some ''yesterday'') ''work''"
        63929347200000000 iso_table "[memo ''m1'' (Some old_ts) ''work'']" "[]" "\<lambda>i. None"]
  by (simp add: delete_request_def empty_payload_def payload_get_def memo_def readable_def
      is_old_def malformed_def falsy_def py_format_def iso_table_def old_ts_def us_per_day_def)

section \<open>Service A: delete\<close>

text \<open>
  The result of step 2 has one entry for each old data row of a targeted dataset when
  every data row is linked once, and it names exactly the ids of those rows.
\<close>

lemma length_filter_key:
  "distinct (map f xs) \<Longrightarrow>
   length [x \<leftarrow> xs. f x = a \<and> Q x] = (if \<exists>x \<in> set xs. f x = a \<and> Q x then 1 else 0)"
  by (induction xs) (auto simp: image_iff)

lemma length_concat_cond:
  "length (concat (map (\<lambda>dd. if P dd then [a] else []) xs)) = length (filter P xs)"
  by (induction xs) auto

lemma length_concat_01:
  "(\<And>r. r \<in> set rs \<Longrightarrow> length (g r) = (if R r then 1 else 0)) \<Longrightarrow>
   length (concat (map g rs)) = length (filter R rs)"
  by (induction rs) auto

lemma select_old_data_length:
  assumes "owned_once d"
  shows "length (select_old_data d ids c) =
         length [r \<leftarrow> data_rows d. older (updated_at r) c \<and> linked d (set ids) r]"
proof -
  have inner: "length (concat (map (\<lambda>dd. if d_id r = snd dd \<and> fst dd \<in> set ids \<and>
                    older (updated_at r) c then [d_id r] else []) (dataset_data d))) =
               (if older (updated_at r) c \<and> linked d (set ids) r then 1 else 0)" for r
  proof -
    have "length [dd \<leftarrow> dataset_data d. snd dd = d_id r \<and> (fst dd \<in> set ids \<and> older (updated_at r) c)] =
          (if \<exists>dd \<in> set (dataset_data d). snd dd = d_id r \<and> (fst dd \<in> set ids \<and> older (updated_at r) c)
           then 1 else 0)"
      using assms unfolding owned_once_def by (rule length_filter_key)
    moreover have "[dd \<leftarrow> dataset_data d. d_id r = snd dd \<and> fst dd \<in> set ids \<and> older (updated_at r) c] =
                   [dd \<leftarrow> dataset_data d. snd dd = d_id r \<and> (fst dd \<in> set ids \<and> older (updated_at r) c)]"
      by (rule filter_cong) auto
    ultimately show ?thesis
      by (auto simp: length_concat_cond linked_def)
  qed
  show ?thesis
    unfolding select_old_data_def
    by (rule length_concat_01) (simp add: inner)
qed

lemma set_concat_cond:
  "set (concat (map (\<lambda>dd. if P dd then [a] else []) xs)) =
     (if \<exists>dd \<in> set xs. P dd then {a} else {})"
  by (induction xs) auto

lemma mem_concat_rows:
  "x \<in> set (concat (map (\<lambda>r. concat (map (\<lambda>dd. if P r dd then [f r] else []) dds)) rs)) \<longleftrightarrow>
     (\<exists>r \<in> set rs. f r = x \<and> (\<exists>dd \<in> set dds. P r dd))"
  by (induction rs) (auto simp: set_concat_cond split: if_splits)

lemma select_old_data_mem:
  "x \<in> set (select_old_data d ids c) \<longleftrightarrow>
     (\<exists>r \<in> set (data_rows d). d_id r = x \<and> older (updated_at r) c \<and> linked d (set ids) r)"
  unfolding select_old_data_def linked_def mem_concat_rows by (rule bex_cong) (simp, force)

lemma distinct_key_eq:
  "distinct (map f xs) \<Longrightarrow> x \<in> set xs \<Longrightarrow> y \<in> set xs \<Longrightarrow> f x = f y \<Longrightarrow> x = y"
  by (meson distinct_map inj_on_eq_iff)

lemma old_id_iff:
  assumes "distinct (map d_id (data_rows d))" "r \<in> set (data_rows d)"
  shows "d_id r \<in> set (select_old_data d ids c) \<longleftrightarrow>
         older (updated_at r) c \<and> linked d (set ids) r"
  using assms distinct_key_eq [OF assms(1)] by (auto simp: select_old_data_mem)

text \<open>
  The transaction in closed form, and the datasets that step 5 finds empty: those of
  the targeted datasets all of whose rows were old.
\<close>

lemma delete_datasets_nothing: "delete_datasets d [] = d"
  by (simp add: delete_datasets_def)

lemma cleanup_steps:
  assumes "cutoff_before now dys = Inr c"
    and "select_datasets d (map (composite_key (py_format uid)) cats) \<noteq> []"
  shows "cleanup uid cats dys now d =
          (let ids = map ds_id (select_datasets d (map (composite_key (py_format uid)) cats));
               old = select_old_data d ids c;
               d1 = d\<lparr>dataset_data :=
                        [dd \<leftarrow> dataset_data d. \<not> (snd dd \<in> set old \<and> fst dd \<in> set ids)],
                      data_rows := [x \<leftarrow> data_rows d. d_id x \<notin> set old]\<rparr>;
               gone = select_empty_datasets d1 ids
           in (jsonify [(''status'', JStr ''success''),
                        (''message'', JStr ''Processed cleanup.''),
                        (''details'', JObj
                           [(''data_entries_deleted'', JInt (int (length old))),
                            (''empty_datasets_removed'', JInt (int (length gone))),
                            (''cutoff_date'', JInt c)])] 200,
               delete_datasets d1 gone))"
proof -
  have links: "(if 0 < length old then delete_data (delete_links d old ids) old else d) =
               d\<lparr>dataset_data :=
                    [dd \<leftarrow> dataset_data d. \<not> (snd dd \<in> set old \<and> fst dd \<in> set ids)],
                 data_rows := [x \<leftarrow> data_rows d. d_id x \<notin> set old]\<rparr>" for old ids
    by (cases "old = []") (simp_all add: delete_data_def delete_links_def)
  have sets: "(if gone \<noteq> [] then delete_datasets d1 gone else d1) = delete_datasets d1 gone"
    for gone d1
    by (simp add: delete_datasets_nothing)
  show ?thesis
    unfolding cleanup_def Let_def links sets
    using assms by simp
qed

lemma all_old_iff:
  assumes "schema_ok d"
  shows "length [x \<leftarrow> rows_in d t. older (updated_at x) c] = length (rows_in d t) \<longleftrightarrow>
         (\<forall>dd \<in> set (dataset_data d). fst dd = t \<longrightarrow>
            (\<exists>x \<in> set (data_rows d). d_id x = snd dd \<and> older (updated_at x) c))"
proof -
  have pk: "distinct (map d_id (data_rows d))"
    and fk: "\<forall>dd \<in> set (dataset_data d). \<exists>r \<in> set (data_rows d). d_id r = snd dd"
    using assms by (simp_all add: schema_ok_def)
  have "length [x \<leftarrow> rows_in d t. older (updated_at x) c] = length (rows_in d t) \<longleftrightarrow>
        (\<forall>x \<in> set (rows_in d t). older (updated_at x) c)"
    using sum_length_filter_compl [of "\<lambda>x. older (updated_at x) c" "rows_in d t"]
    by (auto simp: filter_empty_conv)
  also have "\<dots> \<longleftrightarrow> (\<forall>dd \<in> set (dataset_data d). fst dd = t \<longrightarrow>
                 (\<exists>x \<in> set (data_rows d). d_id x = snd dd \<and> older (updated_at x) c))"
  proof
    assume all: "\<forall>x \<in> set (rows_in d t). older (updated_at x) c"
    show "\<forall>dd \<in> set (dataset_data d). fst dd = t \<longrightarrow>
            (\<exists>x \<in> set (data_rows d). d_id x = snd dd \<and> older (updated_at x) c)"
    proof (intro ballI impI)
      fix dd assume dd: "dd \<in> set (dataset_data d)" "fst dd = t"
      then obtain x where x: "x \<in> set (data_rows d)" "d_id x = snd dd"
        using fk by blast
      then have "x \<in> set (rows_in d t)"
        using dd by (auto simp: rows_in_def linked_def)
      then show "\<exists>x \<in> set (data_rows d). d_id x = snd dd \<and> older (updated_at x) c"
        using all x by blast
    qed
  next
    assume all: "\<forall>dd \<in> set (dataset_data d). fst dd = t \<longrightarrow>
            (\<exists>x \<in> set (data_rows d). d_id x = snd dd \<and> older (updated_at x) c)"
    show "\<forall>x \<in> set (rows_in d t). older (updated_at x) c"
    proof
      fix x assume "x \<in> set (rows_in d t)"
      then obtain dd where x: "x \<in> set (data_rows d)"
        and dd: "dd \<in> set (dataset_data d)" "snd dd = d_id x" "fst dd = t"
        by (auto simp: rows_in_def linked_def)
      then obtain y where y: "y \<in> set (data_rows d)" "d_id y = snd dd" "older (updated_at y) c"
        using all by blast
      then have "y = x"
        using distinct_key_eq [OF pk y(1) x] dd(2) by simp
      then show "older (updated_at x) c" using y(3) by simp
    qed
  qed
  finally show ?thesis .
qed


lemma select_empty_datasets_mem:
  "t \<in> set (select_empty_datasets d ids) \<longleftrightarrow>
     t \<in> ds_id ` set (datasets d) \<and> t \<in> set ids \<and> (\<forall>dd \<in> set (dataset_data d). fst dd \<noteq> t)"
  by (auto simp: select_empty_datasets_def)

lemma targets_subset: "targets d uid cats \<subseteq> ds_id ` set (datasets d)"
  by (auto simp: targets_def select_datasets_def)

lemma gone_iff:
  assumes "schema_ok d"
    and T: "set ids = T" "T \<subseteq> ds_id ` set (datasets d)"
    and old: "old = select_old_data d ids c"
  shows "t \<in> set (select_empty_datasets
            (d\<lparr>dataset_data :=
                 [dd \<leftarrow> dataset_data d. \<not> (snd dd \<in> set old \<and> fst dd \<in> set ids)],
               data_rows := [x \<leftarrow> data_rows d. d_id x \<notin> set old]\<rparr>) ids) \<longleftrightarrow>
         emptied d c T t"
proof (cases "t \<in> T")
  case False
  then show ?thesis
    using T by (auto simp: select_empty_datasets_mem emptied_def)
next
  case True
  have mem: "t \<in> ds_id ` set (datasets d)" "t \<in> set ids"
    using True T by auto
  have "t \<in> set (select_empty_datasets
            (d\<lparr>dataset_data :=
                 [dd \<leftarrow> dataset_data d. \<not> (snd dd \<in> set old \<and> fst dd \<in> set ids)],
               data_rows := [x \<leftarrow> data_rows d. d_id x \<notin> set old]\<rparr>) ids) \<longleftrightarrow>
        (\<forall>dd \<in> set (dataset_data d). fst dd = t \<longrightarrow> snd dd \<in> set old)"
    using mem by (auto simp: select_empty_datasets_mem) blast+
  also have "\<dots> \<longleftrightarrow> (\<forall>dd \<in> set (dataset_data d). fst dd = t \<longrightarrow>
           (\<exists>x \<in> set (data_rows d). d_id x = snd dd \<and> older (updated_at x) c))"
    using mem(2) unfolding old select_old_data_mem linked_def by (intro ball_cong refl) force
  also have "\<dots> \<longleftrightarrow> length [x \<leftarrow> rows_in d t. older (updated_at x) c] = length (rows_in d t)"
    using all_old_iff [OF assms(1), where t = t and c = c] by simp
  also have "\<dots> \<longleftrightarrow> emptied d c T t"
    using True by (simp add: emptied_def)
  finally show ?thesis .
qed

text \<open>The keys of the schema and the single ownership survive the cleanup.\<close>

lemma cleanup_keeps_schema:
  assumes ok: "schema_ok d" and own: "owned_once d"
    and rows: "data_rows d' = [x \<leftarrow> data_rows d. \<not> (older (updated_at x) c \<and> linked d T x)]"
    and links: "dataset_data d' =
              [dd \<leftarrow> dataset_data d.
                 \<not> (fst dd \<in> T \<and>
                    (\<exists>x \<in> set (data_rows d). d_id x = snd dd \<and> older (updated_at x) c))]"
  shows "schema_ok d' \<and> owned_once d'"
proof -
  have pk: "distinct (map d_id (data_rows d))"
    and fk: "\<forall>dd \<in> set (dataset_data d). \<exists>r \<in> set (data_rows d). d_id r = snd dd"
    using ok by (simp_all add: schema_ok_def)
  have once: "distinct (map snd (dataset_data d))"
    using own by (simp add: owned_once_def)
  have "\<exists>r \<in> set (data_rows d'). d_id r = snd dd" if dd: "dd \<in> set (dataset_data d')" for dd
  proof -
    have in_d: "dd \<in> set (dataset_data d)"
      and keep: "\<not> (fst dd \<in> T \<and>
                    (\<exists>x \<in> set (data_rows d). d_id x = snd dd \<and> older (updated_at x) c))"
      using dd unfolding links by auto
    obtain r where r: "r \<in> set (data_rows d)" "d_id r = snd dd"
      using fk in_d by blast
    have "\<not> (older (updated_at r) c \<and> linked d T r)"
    proof
      assume gone: "older (updated_at r) c \<and> linked d T r"
      then obtain dd' where dd': "dd' \<in> set (dataset_data d)" "snd dd' = d_id r" "fst dd' \<in> T"
        by (auto simp: linked_def)
      then have "dd' = dd"
        using distinct_key_eq [OF once dd'(1) in_d] r(2) by simp
      then show False
        using keep dd'(3) r gone by blast
    qed
    then show ?thesis
      using r unfolding rows by auto
  qed
  then show ?thesis
    using pk once unfolding schema_ok_def owned_once_def rows links
    by (auto simp: distinct_map_filter)
qed

text \<open>
  C2 (as amended). For a request that passes validation, with a representable cutoff
  \<open>c\<close> and at least one matching dataset, on tables that satisfy the schema's keys and
  where every data row is linked to one dataset, once: the handler answers 200; it
  removes exactly the data rows of the targeted datasets that are older than the cutoff,
  and exactly the junction rows of those rows; \<open>data_entries_deleted\<close> is the number of
  data rows removed (for a single targeted dataset, its number \<open>K\<close> of old rows); and it
  removes a dataset row, with the rows of \<open>acls\<close>, \<open>dataset_database\<close> and
  \<open>pipeline_runs\<close> that name it, exactly when the dataset is targeted and all its rows
  were removed (\<open>K = N\<close>). The tables it leaves satisfy the keys and the ownership
  again, so no junction row of a removed data row is left behind.
\<close>

theorem delete_removes_old_rows:
  assumes "\<not> falsy (payload_get (user_id p))" "categories p = Some (CatsList cats)" "cats \<noteq> []"
    and "days p = Some dys" "cutoff_before now dys = Inr c"
    and "targets d (payload_get (user_id p)) cats \<noteq> {}"
    and "schema_ok d" "owned_once d"
  shows "let T = targets d (payload_get (user_id p)) cats;
             r = fst (cognee_delete_old_data (BObj p) now d);
             d' = snd (cognee_delete_old_data (BObj p) now d)
         in code r = 200 \<and>
            data_rows d' = [x \<leftarrow> data_rows d. \<not> (older (updated_at x) c \<and> linked d T x)] \<and>
            dataset_data d' =
              [dd \<leftarrow> dataset_data d.
                 \<not> (fst dd \<in> T \<and>
                    (\<exists>x \<in> set (data_rows d). d_id x = snd dd \<and> older (updated_at x) c))] \<and>
            detail r ''data_entries_deleted'' =
              Some (JInt (int (length [x \<leftarrow> data_rows d. older (updated_at x) c \<and> linked d T x]))) \<and>
            (\<forall>t. T = {t} \<longrightarrow>
               detail r ''data_entries_deleted'' =
                 Some (JInt (int (length [x \<leftarrow> rows_in d t. older (updated_at x) c])))) \<and>
            datasets d' = [ds \<leftarrow> datasets d. \<not> emptied d c T (ds_id ds)] \<and>
            acls d' = [a \<leftarrow> acls d. \<not> emptied d c T (snd a)] \<and>
            dataset_database d' = [a \<leftarrow> dataset_database d. \<not> emptied d c T (snd a)] \<and>
            pipeline_runs d' = [a \<leftarrow> pipeline_runs d. \<not> emptied d c T (snd a)] \<and>
            schema_ok d' \<and> owned_once d'"
proof -
  define T where "T = targets d (payload_get (user_id p)) cats"
  define ids where "ids = map ds_id (select_datasets d (map (composite_key (py_format (payload_get (user_id p)))) cats))"
  define old where "old = select_old_data d ids c"
  define d1 where "d1 = d\<lparr>dataset_data :=
                        [dd \<leftarrow> dataset_data d. \<not> (snd dd \<in> set old \<and> fst dd \<in> set ids)],
                      data_rows := [x \<leftarrow> data_rows d. d_id x \<notin> set old]\<rparr>"
  define gone where "gone = select_empty_datasets d1 ids"
  have pk: "distinct (map d_id (data_rows d))"
    using assms(7) by (simp add: schema_ok_def)
  have idsT: "set ids = T"
    by (simp add: ids_def T_def targets_def)
  have some: "select_datasets d (map (composite_key (py_format (payload_get (user_id p)))) cats) \<noteq> []"
    using assms(6) by (auto simp: targets_def)
  have run: "cognee_delete_old_data (BObj p) now d =
          (jsonify [(''status'', JStr ''success''),
                    (''message'', JStr ''Processed cleanup.''),
                    (''details'', JObj
                       [(''data_entries_deleted'', JInt (int (length old))),
                        (''empty_datasets_removed'', JInt (int (length gone))),
                        (''cutoff_date'', JInt c)])] 200,
           delete_datasets d1 gone)"
    using assms(1-4) cleanup_steps [OF assms(5) some]
    by (simp add: cognee_delete_old_data_def as_dict_BObj no_categories_def Let_def ids_def
        old_def d1_def gone_def)
  have gone: "t \<in> set gone \<longleftrightarrow> emptied d c T t" for t
    unfolding gone_def d1_def
    using gone_iff [OF assms(7) idsT _ old_def] targets_subset [of d "payload_get (user_id p)" cats]
    by (simp add: T_def)
  have rows: "[x \<leftarrow> data_rows d. d_id x \<notin> set old] =
              [x \<leftarrow> data_rows d. \<not> (older (updated_at x) c \<and> linked d T x)]"
    using old_id_iff [OF pk, of _ ids c] by (intro filter_cong) (auto simp: old_def idsT)
  have links: "[dd \<leftarrow> dataset_data d. \<not> (snd dd \<in> set old \<and> fst dd \<in> set ids)] =
               [dd \<leftarrow> dataset_data d.
                 \<not> (fst dd \<in> T \<and>
                    (\<exists>x \<in> set (data_rows d). d_id x = snd dd \<and> older (updated_at x) c))]"
    unfolding old_def select_old_data_mem linked_def idsT
    by (intro filter_cong refl) force
  have count: "length old = length [x \<leftarrow> data_rows d. older (updated_at x) c \<and> linked d T x]"
    using select_old_data_length [OF assms(8), of ids c] by (simp add: old_def idsT)
  have single: "length old = length [x \<leftarrow> rows_in d t. older (updated_at x) c]" if "T = {t}" for t
    unfolding count rows_in_def that by (simp add: conj_commute)
  have rows': "data_rows (delete_datasets d1 gone) = [x \<leftarrow> data_rows d. d_id x \<notin> set old]"
    by (simp add: delete_datasets_def d1_def)
  have links': "dataset_data (delete_datasets d1 gone) =
                [dd \<leftarrow> dataset_data d. \<not> (snd dd \<in> set old \<and> fst dd \<in> set ids)]"
    by (simp add: delete_datasets_def d1_def)
  have keys: "schema_ok (delete_datasets d1 gone) \<and> owned_once (delete_datasets d1 gone)"
    by (rule cleanup_keeps_schema [OF assms(7,8) trans [OF rows' rows] trans [OF links' links]])
  show ?thesis
    unfolding Let_def T_def [symmetric] run
    using rows links count single gone keys
    by (simp add: jsonify_def detail_def delete_datasets_def d1_def)
qed

text \<open>
  The theorem at the request for both categories with 30 days: two of the three data
  rows are old, and the dataset \<^verbatim>\<open>u1_home\<close> loses its only row and is removed.
\<close>

theorem delete_removes_old_rows_witness:
  "schema_ok tidy_db \<and> owned_once tidy_db \<and>
   cutoff_before 63929347200000000 30 = Inr 63926755200000000 \<and>
   code (fst (cognee_delete_old_data (BObj (cleanup_request 30)) 63929347200000000 tidy_db)) = 200 \<and>
   detail (fst (cognee_delete_old_data (BObj (cleanup_request 30)) 63929347200000000 tidy_db))
     ''data_entries_deleted'' = Some (JInt 2) \<and>
   snd (cognee_delete_old_data (BObj (cleanup_request 30)) 63929347200000000 tidy_db) =
     \<lparr>datasets = [\<lparr>ds_id = 7, ds_name = ''u1_work''\<rparr>],
      data_rows = [\<lparr>d_id = 11, updated_at = Some 63929088000000000\<rparr>],
      dataset_data = [(7, 11)],
      acls = [(100, 7)],
      dataset_database = [(200, 7)],
      pipeline_runs = []\<rparr>"
proof -
  have ok: "schema_ok tidy_db" "owned_once tidy_db"
    by (simp_all add: schema_ok_def owned_once_def tidy_db_def)
  have cut: "cutoff_before 63929347200000000 30 = Inr 63926755200000000"
    by (simp add: cutoff_before_def us_per_day_def)
  have tg: "targets tidy_db (payload_get (user_id (cleanup_request 30))) [''work'', ''home''] = {7, 8}"
    by (auto simp: targets_def select_datasets_def tidy_db_def cleanup_request_def
        payload_get_def composite_key_def py_format_def)
  have em: "emptied tidy_db 63926755200000000 {7, 8} t \<longleftrightarrow> t = 8" for t
    by (auto simp: emptied_def rows_in_def linked_def tidy_db_def older_def)
  have ln: "linked tidy_db {7, 8} x \<longleftrightarrow> d_id x \<in> {10, 11, 12}" for x
    by (auto simp: linked_def tidy_db_def)
  have "\<not> falsy (payload_get (user_id (cleanup_request 30)))"
    "categories (cleanup_request 30) = Some (CatsList [''work'', ''home''])"
    "days (cleanup_request 30) = Some 30"
    by (simp_all add: cleanup_request_def empty_payload_def payload_get_def falsy_def)
  from delete_removes_old_rows [OF this(1,2) _ this(3) cut _ ok] tg
  have "let r = fst (cognee_delete_old_data (BObj (cleanup_request 30)) 63929347200000000 tidy_db);
            d' = snd (cognee_delete_old_data (BObj (cleanup_request 30)) 63929347200000000 tidy_db)
        in code r = 200 \<and> detail r ''data_entries_deleted'' = Some (JInt 2) \<and>
           datasets d' = [\<lparr>ds_id = 7, ds_name = ''u1_work''\<rparr>] \<and>
           data_rows d' = [\<lparr>d_id = 11, updated_at = Some 63929088000000000\<rparr>] \<and>
           dataset_data d' = [(7, 11)] \<and> acls d' = [(100, 7)] \<and>
           dataset_database d' = [(200, 7)] \<and> pipeline_runs d' = []"
    by (simp add: Let_def em ln) (simp add: tidy_db_def older_def)
  then show ?thesis
    using ok cut
    by (cases "snd (cognee_delete_old_data (BObj (cleanup_request 30)) 63929347200000000 tidy_db)")
       (simp add: Let_def)
qed

text \<open>
  The claim as stated fails where a data row is shared: the dataset \<^verbatim>\<open>u1_work\<close> holds
  one row, which is old, the table \<open>data\<close> holds one row in all, and the handler removes
  that one row and reports two.
\<close>

theorem delete_shared_row_counted_twice:
  "length (rows_in shared_db 7) = 1 \<and>
   detail (fst (cognee_delete_old_data (BObj (cleanup_request 30)) 63929347200000000 shared_db))
     ''data_entries_deleted'' = Some (JInt 2) \<and>
   length (data_rows shared_db) = 1 \<and>
   data_rows (snd (cognee_delete_old_data (BObj (cleanup_request 30)) 63929347200000000 shared_db)) = []"
  by (simp add: cleanup_request_def empty_payload_def as_dict_BObj payload_get_def falsy_def
      cutoff_before_def us_per_day_def
      select_datasets_def shared_db_def cognee_delete_old_data_def no_categories_def
      cleanup_def jsonify_def detail_def rows_in_def linked_def composite_key_def py_format_def
      select_old_data_def older_def delete_data_def delete_links_def select_empty_datasets_def
      delete_datasets_def Let_def)

text \<open>
  C5 (as amended). For a request that passes validation: when the cutoff is
  representable and the composite names match no dataset row, the handler answers 404
  and leaves the tables as they are; when the cutoff is representable, the names match
  at least one dataset and no data row of the matched datasets is older than the
  cutoff, it answers 200 with \<open>data_entries_deleted = 0\<close> and removes no data row and
  no junction row, whatever the datasets of others hold; and when the cutoff is not
  representable it answers 500 and leaves the tables as they are.
\<close>

theorem delete_not_found_or_nothing_old:
  assumes "\<not> falsy (payload_get (user_id p))" "categories p = Some (CatsList cats)" "cats \<noteq> []"
    and "days p = Some dys"
  shows "(cutoff_before now dys = Inr c \<and> targets d (payload_get (user_id p)) cats = {} \<longrightarrow>
            cognee_delete_old_data (BObj p) now d =
              (jsonify [(''status'', JStr ''not_found''),
                        (''message'', JStr ''No matching datasets found.'')] 404, d)) \<and>
         (cutoff_before now dys = Inr c \<and> targets d (payload_get (user_id p)) cats \<noteq> {} \<and>
          (\<forall>x \<in> set (data_rows d).
             linked d (targets d (payload_get (user_id p)) cats) x \<longrightarrow> \<not> older (updated_at x) c)
          \<longrightarrow>
            code (fst (cognee_delete_old_data (BObj p) now d)) = 200 \<and>
            detail (fst (cognee_delete_old_data (BObj p) now d)) ''data_entries_deleted''
              = Some (JInt 0) \<and>
            data_rows (snd (cognee_delete_old_data (BObj p) now d)) = data_rows d \<and>
            dataset_data (snd (cognee_delete_old_data (BObj p) now d)) = dataset_data d) \<and>
         (cutoff_before now dys = Inl e \<longrightarrow>
            cognee_delete_old_data (BObj p) now d = (jsonify [(''error'', JStr e)] 500, d))"
proof -
  let ?T = "targets d (payload_get (user_id p)) cats"
  let ?names = "map (composite_key (py_format (payload_get (user_id p)))) cats"
  have run: "cognee_delete_old_data (BObj p) now d =
             cleanup (payload_get (user_id p)) cats dys now d"
    using assms by (simp add: cognee_delete_old_data_def as_dict_BObj no_categories_def)
  have none: "cognee_delete_old_data (BObj p) now d =
              (jsonify [(''status'', JStr ''not_found''),
                        (''message'', JStr ''No matching datasets found.'')] 404, d)"
    if "cutoff_before now dys = Inr c" "?T = {}"
    using that unfolding run by (simp add: cleanup_def targets_def)
  have fresh: "code (fst (cognee_delete_old_data (BObj p) now d)) = 200 \<and>
            detail (fst (cognee_delete_old_data (BObj p) now d)) ''data_entries_deleted''
              = Some (JInt 0) \<and>
            data_rows (snd (cognee_delete_old_data (BObj p) now d)) = data_rows d \<and>
            dataset_data (snd (cognee_delete_old_data (BObj p) now d)) = dataset_data d"
    if cut: "cutoff_before now dys = Inr c" and some: "?T \<noteq> {}"
      and young: "\<forall>x \<in> set (data_rows d). linked d ?T x \<longrightarrow> \<not> older (updated_at x) c"
  proof -
    have ne: "select_datasets d ?names \<noteq> []"
      using some by (auto simp: targets_def)
    have ids: "set (map ds_id (select_datasets d ?names)) = ?T"
      by (simp add: targets_def)
    have old: "select_old_data d (map ds_id (select_datasets d ?names)) c = []"
    proof (rule ccontr)
      assume "select_old_data d (map ds_id (select_datasets d ?names)) c \<noteq> []"
      then obtain x where "x \<in> set (select_old_data d (map ds_id (select_datasets d ?names)) c)"
        by (cases "select_old_data d (map ds_id (select_datasets d ?names)) c") auto
      then obtain r where "r \<in> set (data_rows d)" "older (updated_at r) c" "linked d ?T r"
        unfolding select_old_data_mem ids by blast
      then show False
        using young by blast
    qed
    show ?thesis
      unfolding run cleanup_steps [OF cut ne]
      by (simp add: Let_def old jsonify_def detail_def delete_datasets_def)
  qed
  have over: "cognee_delete_old_data (BObj p) now d = (jsonify [(''error'', JStr e)] 500, d)"
    if "cutoff_before now dys = Inl e"
    using that unfolding run by (simp add: cleanup_def)
  from none fresh over show ?thesis by blast
qed

text \<open>
  The theorem at the empty database (404), at a database where the only old row is in
  the dataset of another user (200, zero rows deleted, the tables as they were), and at
  a number of days that takes the cutoff before \<^verbatim>\<open>datetime.min\<close> (500).
\<close>

theorem delete_not_found_or_nothing_old_witness:
  "cognee_delete_old_data (BObj (cleanup_request 30)) 63929347200000000 empty_db =
     (jsonify [(''status'', JStr ''not_found''),
               (''message'', JStr ''No matching datasets found.'')] 404, empty_db) \<and>
   targets lodger_db (Some ''u1'') [''work'', ''home''] = {7} \<and>
   cutoff_before 63929347200000000 30 = Inr 63926755200000000 \<and>
   older (updated_at \<lparr>d_id = 13, updated_at = Some 63713433600000000\<rparr>) 63926755200000000 \<and>
   code (fst (cognee_delete_old_data (BObj (cleanup_request 30)) 63929347200000000 lodger_db))
     = 200 \<and>
   detail (fst (cognee_delete_old_data (BObj (cleanup_request 30)) 63929347200000000 lodger_db))
     ''data_entries_deleted'' = Some (JInt 0) \<and>
   data_rows (snd (cognee_delete_old_data (BObj (cleanup_request 30)) 63929347200000000
     lodger_db)) = data_rows lodger_db \<and>
   cognee_delete_old_data (BObj (cleanup_request 1000000)) 63929347200000000 lodger_db =
     (jsonify [(''error'', JStr ''date value out of range'')] 500, lodger_db)"
  using delete_not_found_or_nothing_old
    [of "cleanup_request 30" "[''work'', ''home'']" 30 63929347200000000 63926755200000000
        empty_db]
    delete_not_found_or_nothing_old
    [of "cleanup_request 30" "[''work'', ''home'']" 30 63929347200000000 63926755200000000
        lodger_db]
    delete_not_found_or_nothing_old
    [of "cleanup_request 1000000" "[''work'', ''home'']" 1000000 63929347200000000 _
        lodger_db "''date value out of range''"]
  by (simp add: cleanup_request_def empty_payload_def payload_get_def falsy_def
      cutoff_before_def us_per_day_def targets_def select_datasets_def empty_db_def
      lodger_db_def composite_key_def py_format_def older_def linked_def)

text \<open>
  The claim as stated (never 500) fails for a number of days that takes the cutoff
  before \<^verbatim>\<open>datetime.min\<close>: the subtraction raises \<^verbatim>\<open>OverflowError\<close> before the tables
  are read, and the handler answers 500 although no dataset matches.
\<close>

theorem delete_overflowing_days_500:
  "targets empty_db (Some ''u1'') [''work'', ''home''] = {} \<and>
   code (fst (cognee_delete_old_data (BObj (cleanup_request 1000000)) 63929347200000000
     empty_db)) = 500"
  by (simp add: cleanup_request_def empty_payload_def as_dict_BObj payload_get_def falsy_def
      cutoff_before_def us_per_day_def targets_def select_datasets_def empty_db_def
      cognee_delete_old_data_def no_categories_def cleanup_def jsonify_def)

section \<open>Service B: the prefix-scoped pass\<close>

text \<open>
  Splitting at a separator, the prefix test, and reading back a rendered integer: a name
  written by the ingest handler for a user id without underscore has the timestamp as
  its fourth field, and starts with the prefix of that user only.
\<close>

lemma split_on_nonempty: "split_on c xs \<noteq> []"
  by (induction xs) (auto split: list.splits)

lemma split_on_no_sep: "c \<notin> set xs \<Longrightarrow> split_on c xs = [xs]"
  by (induction xs) auto

lemma split_on_sep: "c \<notin> set xs \<Longrightarrow> split_on c (xs @ c # ys) = xs # split_on c ys"
  by (induction xs) auto

lemma starts_with_iff: "starts_with p s \<longleftrightarrow> (\<exists>r. s = p @ r)"
  by (induction p s rule: starts_with.induct) auto

lemma digit_char_cases:
  "d < 10 \<Longrightarrow> digit_char d \<in> set ''0123456789''"
proof -
  assume "d < 10"
  then have "d \<in> {0, 1, 2, 3, 4, 5, 6, 7, 8, 9}" by auto
  then show ?thesis
    by (auto simp: digit_char_def)
qed

lemma digit_of_digit_char: "d < 10 \<Longrightarrow> digit_of (digit_char d) = Some d"
proof -
  assume "d < 10"
  then have "d \<in> {0, 1, 2, 3, 4, 5, 6, 7, 8, 9}" by auto
  then show ?thesis
    by (auto simp: digit_of_def digit_char_def)
qed

lemma str_nat_chars: "set (str_nat n) \<subseteq> set ''0123456789''"
proof (induction n rule: str_nat.induct)
  case (1 n)
  show ?case
  proof (cases "n < 10")
    case True
    then show ?thesis
      using digit_char_cases [of n] by (subst str_nat.simps) simp
  next
    case False
    then show ?thesis
      using "1.IH" digit_char_cases [of "n mod 10"] by (subst str_nat.simps) simp
  qed
qed

lemma str_nat_not_empty: "str_nat n \<noteq> []"
  by (subst str_nat.simps) simp

lemma digits_val_append:
  "digits_val (xs @ ys) acc =
     (case digits_val xs acc of None \<Rightarrow> None | Some v \<Rightarrow> digits_val ys v)"
  by (induction xs arbitrary: acc) (auto split: option.splits)

lemma digits_val_str_nat: "digits_val (str_nat n) 0 = Some n"
proof (induction n rule: str_nat.induct)
  case (1 n)
  show ?case
  proof (cases "n < 10")
    case True
    then show ?thesis
      by (subst str_nat.simps) (simp add: digit_of_digit_char)
  next
    case False
    then show ?thesis
      using "1.IH" by (subst str_nat.simps) (simp add: digits_val_append digit_of_digit_char)
  qed
qed

lemma toInteger_py_str_int: "toInteger (py_str_int i) = Some i"
proof (cases "i < 0")
  case True
  then show ?thesis
    by (simp add: toInteger_def py_str_int_def str_nat_not_empty digits_val_str_nat)
next
  case False
  obtain c cs where cs: "str_nat (nat i) = c # cs"
    using str_nat_not_empty [of "nat i"] by (cases "str_nat (nat i)") auto
  then have "c \<in> set ''0123456789''"
    using str_nat_chars [of "nat i"] by auto
  then have "c \<noteq> CHR ''-''" by auto
  then show ?thesis
    using False cs digits_val_str_nat [of "nat i"]
    by (simp add: toInteger_def py_str_int_def)
qed

lemma py_str_int_no_underscore: "CHR ''_'' \<notin> set (py_str_int i)"
  using str_nat_chars [of "nat i"] str_nat_chars [of "nat (- i)"]
  by (auto simp: py_str_int_def)

lemma episode_name_field:
  assumes "CHR ''_'' \<notin> set v"
  shows "nth_opt (split_on CHR ''_'' (episode_name (Some v) t)) 3 = Some (py_str_int t)"
proof -
  have "episode_name (Some v) t =
          ''User'' @ CHR ''_'' # (v @ CHR ''_'' # (''Ingest'' @ CHR ''_'' # py_str_int t))"
    by (simp add: episode_name_def py_format_def)
  then have "split_on CHR ''_'' (episode_name (Some v) t) =
          [''User'', v, ''Ingest'', py_str_int t]"
    using assms py_str_int_no_underscore [of t]
    by (simp only: split_on_sep split_on_no_sep) (simp add: split_on_sep split_on_no_sep)
  then show ?thesis
    by (simp add: nth_opt_def)
qed

lemma episode_name_prefix:
  assumes "CHR ''_'' \<notin> set u" "CHR ''_'' \<notin> set v"
  shows "starts_with (user_prefix_of (Some u)) (episode_name (Some v) t) \<longleftrightarrow> v = u"
proof
  assume "starts_with (user_prefix_of (Some u)) (episode_name (Some v) t)"
  then obtain r where "episode_name (Some v) t = user_prefix_of (Some u) @ r"
    by (auto simp: starts_with_iff)
  then have "v @ CHR ''_'' # (''Ingest_'' @ py_str_int t) = u @ CHR ''_'' # (''Ingest_'' @ r)"
    by (simp add: episode_name_def user_prefix_of_def py_format_def)
  then show "v = u"
    using sep_append_unique [OF assms(2,1)] by blast
next
  assume "v = u"
  then show "starts_with (user_prefix_of (Some u)) (episode_name (Some v) t)"
    by (simp add: starts_with_iff episode_name_def user_prefix_of_def py_format_def)
qed

lemma del_match_episode:
  assumes "CHR ''_'' \<notin> set u" "CHR ''_'' \<notin> set v" "name e = episode_name (Some v) t"
  shows "del_match (user_prefix_of (Some u)) c e \<longleftrightarrow> episodic e \<and> v = u \<and> t < c"
  using assms
  by (simp add: del_match_def episode_name_prefix episode_name_field toInteger_py_str_int)

text \<open>
  C3 (as amended). For a delete_old request of a user whose id holds no underscore, an
  episodic node that the ingest handler named for a user id without underscore is
  removed by the prefix-scoped pass exactly when it belongs to the requesting user and
  its embedded timestamp is more than 90 days before now; the pass adds no node,
  changes none that it keeps, and keeps every node that is not episodic. The handler (with a non-empty \<open>user_id\<close> and the driver
  initialised) runs this pass and then the global orphan pass.
\<close>

theorem prefix_pass_scoped:
  assumes "CHR ''_'' \<notin> set u" "CHR ''_'' \<notin> set v"
    and "e \<in> set (nodes g)" "episodic e" "name e = episode_name (Some v) t"
  shows "(e \<in> set (nodes (snd (delete_old_episodes (user_prefix_of (Some u)) (cutoff_time now) g)))
            \<longleftrightarrow> \<not> (v = u \<and> t < now - 90 * 24 * 60 * 60)) \<and>
         set (nodes (snd (delete_old_episodes (user_prefix_of (Some u)) (cutoff_time now) g)))
            \<subseteq> set (nodes g) \<and>
         (\<forall>n \<in> set (nodes g). \<not> episodic n \<longrightarrow>
            n \<in> set (nodes (snd (delete_old_episodes (user_prefix_of (Some u))
                                   (cutoff_time now) g)))) \<and>
         (user_id p = KStr u \<and> u \<noteq> [] \<and> async_driver st \<longrightarrow>
            snd (graphiti_delete_old_data st (BObj p) now g) =
              snd (delete_orphans
                (snd (delete_old_episodes (user_prefix_of (Some u)) (cutoff_time now) g))))"
  using assms del_match_episode [OF assms(1,2,5), of "cutoff_time now"]
  by (auto simp: delete_old_episodes_def graphiti_delete_old_data_def as_dict_BObj
      payload_get_def cutoff_time_def falsy_def del_match_def Let_def split: prod.splits)

lemma episode_names:
  "episode_name (Some ''alice'') 1000 = ''User_alice_Ingest_1000''"
  "episode_name (Some ''alice'') 1762000000 = ''User_alice_Ingest_1762000000''"
  "episode_name (Some ''bob'') 1000 = ''User_bob_Ingest_1000''"
  "episode_name (Some ''a_b'') 1000 = ''User_a_b_Ingest_1000''"
  "episode_name (Some ''a_Ingest_5'') 1762250000 = ''User_a_Ingest_5_Ingest_1762250000''"
  by (simp_all add: episode_name_def py_format_def py_str_int_def str_nat.simps digit_char_def)

text \<open>
  The theorem at the request of \<^verbatim>\<open>alice\<close>: her old episode goes, her recent one and
  the old episode of \<^verbatim>\<open>bob\<close> stay.
\<close>

theorem prefix_pass_scoped_witness:
  "CHR ''_'' \<notin> set ''alice'' \<and>
   episode 1 ''alice'' 1000 \<in> set (nodes three_episodes) \<and>
   episode 1 ''alice'' 1000 \<notin>
     set (nodes (snd (delete_old_episodes (user_prefix_of (Some ''alice''))
                        (cutoff_time 1762250000) three_episodes))) \<and>
   episode 2 ''alice'' 1762000000 \<in>
     set (nodes (snd (delete_old_episodes (user_prefix_of (Some ''alice''))
                        (cutoff_time 1762250000) three_episodes))) \<and>
   episode 3 ''bob'' 1000 \<in>
     set (nodes (snd (delete_old_episodes (user_prefix_of (Some ''alice''))
                        (cutoff_time 1762250000) three_episodes)))"
  using prefix_pass_scoped
      [of "''alice''" "''alice''" "episode 1 ''alice'' 1000" three_episodes 1000 1762250000]
    prefix_pass_scoped
      [of "''alice''" "''alice''" "episode 2 ''alice'' 1762000000" three_episodes 1762000000
          1762250000]
    prefix_pass_scoped
      [of "''alice''" "''bob''" "episode 3 ''bob'' 1000" three_episodes 1000 1762250000]
  by (simp add: episode_def three_episodes_def)

text \<open>
  The claim as stated (every user id) fails at two requests on a graph with the users
  \<^verbatim>\<open>a_b\<close> and \<^verbatim>\<open>a_Ingest_5\<close>. The request of user \<^verbatim>\<open>a_b\<close> removes nothing, although
  that user's episode is far outside the window: the fourth field of its name is
  \<^verbatim>\<open>Ingest\<close>, not the timestamp. And the request of user \<^verbatim>\<open>a\<close> removes the episode of
  the other user \<^verbatim>\<open>a_Ingest_5\<close>, written at the time of the request: its name starts
  with the prefix of \<^verbatim>\<open>a\<close> and its fourth field is \<^verbatim>\<open>5\<close>.
\<close>

theorem prefix_pass_underscore_ids:
  "nodes (snd (delete_old_episodes (user_prefix_of (Some ''a_b'')) (cutoff_time 1762250000)
                 underscore_episodes)) = nodes underscore_episodes \<and>
   nodes (snd (delete_old_episodes (user_prefix_of (Some ''a'')) (cutoff_time 1762250000)
                 underscore_episodes)) = [episode 1 ''a_b'' 1000] \<and>
   (1000 :: int) < cutoff_time 1762250000 \<and> \<not> (1762250000 :: int) < cutoff_time 1762250000"
  by (simp add: delete_old_episodes_def underscore_episodes_def episode_def episode_names
      user_prefix_of_def py_format_def cutoff_time_def del_match_def nth_opt_def toInteger_def
      digit_of_def)

end
